theory Spec2Isabelle
  imports Complex_Main "HOL-Library.Extended_Nat" "HOL-Library.Sublist"
begin

section \<open>Trailing numbers of file names\<close>

text \<open>
  Both the tour core and the manifest script read the number a file name ends with:
  \<^verbatim>\<open>
  function trailingNumber(filename) {
      const m = filename.replace(/\.\w+$/, '').match(/(\d+)$/);
      return m ? parseInt(m[1], 10) : Infinity;
  }
  \<close>
  A file name is a \<open>string\<close>. The classes \<open>\w\<close> and \<open>\d\<close> of a regular expression
  without the \<open>u\<close> flag are ASCII only, so a character outside ASCII is neither, whether it
  is read as one UTF-16 unit or as several bytes. The result is a JavaScript number that is
  either a non-negative integer or \<open>Infinity\<close>: an \<open>enat\<close>. A run of digits is read
  exactly here, as \<open>parseInt\<close> reads every number below \<open>2^53\<close>; a longer run is rounded
  to a double by JavaScript, by the one \<open>parseInt\<close> that both parsers call.
\<close>

definition is_digit :: "char \<Rightarrow> bool" where
  "is_digit c = (c \<in> set ''0123456789'')"

definition is_word :: "char \<Rightarrow> bool" where
  "is_word c =
     (c \<in> set ''abcdefghijklmnopqrstuvwxyzABCDEFGHIJKLMNOPQRSTUVWXYZ0123456789_'')"

text \<open>
  \<open>s.replace(/\.\w+$/, '')\<close>: the search tries every start position from the left; the
  pattern matches at a position when a dot stands there and everything after it, at least one
  character, is a word character up to the end of the string. The match is deleted.
\<close>

fun replace_ext :: "string \<Rightarrow> string" where
  "replace_ext [] = []"
| "replace_ext (c # cs) =
     (if c = CHR ''.'' \<and> cs \<noteq> [] \<and> list_all is_word cs then [] else c # replace_ext cs)"

text \<open>
  \<open>s.match(/(\d+)$/)\<close>: the leftmost position from which only digits follow up to the
  end, at least one; the group is that run of digits. No such position: \<open>null\<close>.
\<close>

fun match_digits :: "string \<Rightarrow> string option" where
  "match_digits [] = None"
| "match_digits (c # cs) =
     (if list_all is_digit (c # cs) then Some (c # cs) else match_digits cs)"

definition digit_val :: "char \<Rightarrow> nat" where
  "digit_val c = of_char c - 48"

text \<open>\<open>parseInt(ds, 10)\<close> on a non-empty run of decimal digits, read from the left.\<close>

definition parseInt :: "string \<Rightarrow> nat" where
  "parseInt ds = foldl (\<lambda>a c. 10 * a + digit_val c) 0 ds"

text \<open>The parser of the tour core.\<close>

definition trailingNumber :: "string \<Rightarrow> enat" where
  "trailingNumber filename =
     (case match_digits (replace_ext filename) of
        Some m \<Rightarrow> enat (parseInt m)
      | None \<Rightarrow> \<infinity>)"

text \<open>
  The parser of the manifest script, a function of its own in that file
  (its local is called \<open>match\<close>):
  \<^verbatim>\<open>
  function trailingNumber(filename) {
      const match = filename.replace(/\.\w+$/, '').match(/(\d+)$/);
      return match ? parseInt(match[1], 10) : Infinity;
  }
  const files = readdirSync(panoDir)
      .filter(f => /\.jpe?g$/i.test(f))
      .sort((a, b) => trailingNumber(a) - trailingNumber(b));
  \<close>
\<close>

definition trailingNumber_manifest :: "string \<Rightarrow> enat" where
  "trailingNumber_manifest filename =
     (case match_digits (replace_ext filename) of
        Some match \<Rightarrow> enat (parseInt match)
      | None \<Rightarrow> \<infinity>)"

text \<open>
  \<open>files.sort((a, b) => trailingNumber(a) - trailingNumber(b))\<close>. The difference of two
  keys is negative, zero or positive as the keys compare; \<open>Infinity - Infinity\<close> is
  \<open>NaN\<close>, which \<open>sort\<close> reads as zero. The comparison is therefore the order of the keys
  in \<open>enat\<close>, and \<open>Array.prototype.sort\<close> is stable: names with equal keys keep their
  order, which is what \<open>sort_key\<close> computes.
\<close>

definition lower :: "char \<Rightarrow> char" where
  "lower c = (if c \<in> set ''ABCDEFGHIJKLMNOPQRSTUVWXYZ'' then char_of (of_char c + (32::nat)) else c)"

text \<open>\<open>/\.jpe?g$/i.test(f)\<close>\<close>

definition jpeg_name :: "string \<Rightarrow> bool" where
  "jpeg_name f = (suffix ''.jpg'' (map lower f) \<or> suffix ''.jpeg'' (map lower f))"

definition manifest_files :: "string list \<Rightarrow> string list" where
  "manifest_files entries = sort_key trailingNumber_manifest (filter jpeg_name entries)"

text \<open>
  The parser as the specification words it: strip a final dot-extension, read the trailing
  run of decimal digits as a base-10 integer, and give the infinite sentinel when no trailing
  digits remain.
\<close>

definition strip_extension_spec :: "string \<Rightarrow> string" where
  "strip_extension_spec s =
     (let ext = takeWhile is_word (rev s); rest = dropWhile is_word (rev s)
      in if ext \<noteq> [] \<and> rest \<noteq> [] \<and> hd rest = CHR ''.'' then rev (tl rest) else s)"

definition trailing_digits_spec :: "string \<Rightarrow> string" where
  "trailing_digits_spec s = rev (takeWhile is_digit (rev s))"

definition decimal_spec :: "string \<Rightarrow> nat" where
  "decimal_spec ds = (\<Sum>i < length ds. digit_val (rev ds ! i) * 10 ^ i)"

definition trailingNumber_spec :: "string \<Rightarrow> enat" where
  "trailingNumber_spec s =
     (let ds = trailing_digits_spec (strip_extension_spec s)
      in if ds = [] then \<infinity> else enat (decimal_spec ds))"

section \<open>The panorama graph\<close>

text \<open>
  A node of \<open>panoGraph\<close>. \<open>prev\<close> and \<open>next\<close> are references to nodes of the same
  array; a reference is the array position of the node it points to, and \<open>None\<close> is a
  property not yet assigned. (\<open>file\<close> and \<open>next\<close> are reserved words here: the fields are
  \<open>file_name\<close> and \<open>nxt\<close>.)
\<close>

record pano =
  index :: enat
  file_name :: string
  arrayIdx :: nat
  prev :: "nat option"
  nxt :: "nat option"

text \<open>
  \<^verbatim>\<open>
  files.sort((a, b) => trailingNumber(a) - trailingNumber(b));
  panoGraph = files.map((file, i) => ({ index: trailingNumber(file), file, arrayIdx: i }));
  for (let i = 0; i < panoGraph.length; i++) {
      panoGraph[i].prev = panoGraph[(i - 1 + panoGraph.length) % panoGraph.length];
      panoGraph[i].next = panoGraph[(i + 1) % panoGraph.length];
  }
  \<close>
\<close>

definition make_nodes :: "string list \<Rightarrow> pano list" where
  "make_nodes files =
     map (\<lambda>(i, f). \<lparr>index = trailingNumber f, file_name = f, arrayIdx = i, prev = None, nxt = None\<rparr>)
       (List.enumerate 0 files)"

definition set_links :: "pano list \<Rightarrow> nat \<Rightarrow> pano list" where
  "set_links g i =
     g[i := (g ! i)\<lparr>prev := Some (nat ((int i - 1 + int (length g)) mod int (length g))),
                   nxt := Some ((i + 1) mod length g)\<rparr>]"

definition build_graph :: "string list \<Rightarrow> pano list" where
  "build_graph files =
     (let g = make_nodes (sort_key trailingNumber files)
      in foldl set_links g [0..<length g])"

text \<open>Following \<open>next\<close> (or \<open>prev\<close>) from array position \<open>i\<close>, \<open>k\<close> times.\<close>

fun follow :: "(pano \<Rightarrow> nat option) \<Rightarrow> pano list \<Rightarrow> nat \<Rightarrow> nat \<Rightarrow> nat option" where
  "follow link g 0 i = (if i < length g then Some i else None)"
| "follow link g (Suc k) i =
     (if i < length g then (case link (g ! i) of None \<Rightarrow> None | Some j \<Rightarrow> follow link g k j)
      else None)"

text \<open>\<open>panoGraph.find(p => p.index === num) || null\<close>\<close>

definition getPanoByNumber :: "pano list \<Rightarrow> enat \<Rightarrow> pano option" where
  "getPanoByNumber g num = find (\<lambda>p. index p = num) g"

section \<open>The scene state\<close>

text \<open>
  The module keeps its state in top-level variables; the record below holds those the
  navigation code reads and writes, under their names. \<open>camera.position\<close>, \<open>camera.fov\<close>,
  \<open>camera.near\<close>, \<open>camera.far\<close>, \<open>controls.target\<close> and \<open>controls.enabled\<close> are the
  fields of the renderer's camera and of the orbit control that the code assigns.
  Coordinates, angles and distances are reals (an event carries finite numbers only).
  Not in the record: the DOM classes, the visibility flags of meshes, textures, materials and
  the label text, which no function below reads back.
\<close>

datatype vec3 = Vec3 (vx: real) (vy: real) (vz: real)

datatype mode = Dollhouse | Panorama

text \<open>
  A floor marker made by \<open>createFloorCircle\<close>: the yaw it was made for, the position of
  its group, and the node its \<open>onClick\<close> closure navigates to.
\<close>

record arrow =
  yawDeg :: real
  group_position :: vec3
  onClick_target :: pano

record tour =
  currentMode :: mode
  isAnimating :: bool
  panoGraph :: "pano list"
  currentPanoIndex :: int
  panoArrows :: "arrow list"
  panoYaw :: real
  panoPitch :: real
  panoFov :: real
  panoPointerDown :: bool
  panoPointerX :: real
  panoPointerY :: real
  panoPinchDist :: real
  hotspotPositions :: "enat \<rightharpoonup> vec3"
  hotspotMeshes :: "enat list"
  savedCameraPos :: "vec3 option"
  savedControlsTarget :: "vec3 option"
  savedCameraFov :: real
  savedCameraNear :: real
  savedCameraFar :: real
  pointerDownTime :: int
  pointerDownPos :: "real \<times> real"
  camera_position :: vec3
  camera_fov :: real
  camera_near :: real
  camera_far :: real
  controls_target :: vec3
  controls_enabled :: bool
  texture_requests :: "string list"

text \<open>The tables of the configuration section.\<close>

definition DEFAULT_HOTSPOTS :: "enat \<rightharpoonup> vec3" where
  "DEFAULT_HOTSPOTS =
     [1 \<mapsto> Vec3 2 1 1, 2 \<mapsto> Vec3 1 1 4.5, 3 \<mapsto> Vec3 (- 0.6) 1 0.3, 4 \<mapsto> Vec3 (- 2) 1 0.75,
      5 \<mapsto> Vec3 (- 3.3) 1 2, 6 \<mapsto> Vec3 1 1 (- 0.5), 7 \<mapsto> Vec3 3 1 (- 3)]"

definition PANO_NORTH_OFFSET :: "enat \<rightharpoonup> real" where
  "PANO_NORTH_OFFSET =
     [1 \<mapsto> - 140, 2 \<mapsto> 75, 3 \<mapsto> - 40, 4 \<mapsto> 0, 5 \<mapsto> 190, 6 \<mapsto> 90, 7 \<mapsto> 0]"

definition PANO_CONNECTIONS :: "enat \<rightharpoonup> enat list" where
  "PANO_CONNECTIONS =
     [1 \<mapsto> [2, 3], 2 \<mapsto> [1], 3 \<mapsto> [1, 4, 6], 4 \<mapsto> [3, 5], 5 \<mapsto> [4], 6 \<mapsto> [3, 7], 7 \<mapsto> [6]]"

text \<open>
  The variables as their declarations and \<open>initScene\<close> leave them: dollhouse mode, an empty
  graph, no hotspot positions, no snapshot, the camera at \<open>(10, 8, 10)\<close> with field of view
  60 and clip planes 0.1 and 1000, the orbit target at the origin.
\<close>

definition initial_state :: tour where
  "initial_state =
     \<lparr>currentMode = Dollhouse, isAnimating = False, panoGraph = [], currentPanoIndex = - 1,
      panoArrows = [], panoYaw = 0, panoPitch = 0, panoFov = 60, panoPointerDown = False,
      panoPointerX = 0, panoPointerY = 0, panoPinchDist = 0, hotspotPositions = Map.empty,
      hotspotMeshes = [], savedCameraPos = None, savedControlsTarget = None,
      savedCameraFov = 60, savedCameraNear = 0.1, savedCameraFar = 1000,
      pointerDownTime = 0, pointerDownPos = (0, 0),
      camera_position = Vec3 10 8 10, camera_fov = 60, camera_near = 0.1, camera_far = 1000,
      controls_target = Vec3 0 0 0, controls_enabled = True, texture_requests = []\<rparr>"

text \<open>
  \<open>loadManifest\<close>: the fetch fails, or answers with a document whose \<open>files\<close> may be
  missing (\<open>data.files || []\<close>). A failure is swallowed and leaves \<open>panoGraph\<close> as it was.
\<close>

datatype manifest_response = Fetch_failed | Manifest "string list option"

definition loadManifest :: "manifest_response \<Rightarrow> tour \<Rightarrow> tour" where
  "loadManifest res s =
     (case res of
        Fetch_failed \<Rightarrow> s
      | Manifest data_files \<Rightarrow>
          s\<lparr>panoGraph := build_graph (case data_files of None \<Rightarrow> [] | Some files \<Rightarrow> files)\<rparr>)"

text \<open>
  \<open>loadHotspotPositions\<close>: the JSON file when it can be fetched, else the stored override,
  else the defaults.
\<close>

definition loadHotspotPositions ::
  "(enat \<rightharpoonup> vec3) option \<Rightarrow> (enat \<rightharpoonup> vec3) option \<Rightarrow> tour \<Rightarrow> tour" where
  "loadHotspotPositions json stored s =
     (case json of
        Some data \<Rightarrow> s\<lparr>hotspotPositions := data\<rparr>
      | None \<Rightarrow>
          (case stored of
             Some data \<Rightarrow> s\<lparr>hotspotPositions := data\<rparr>
           | None \<Rightarrow> s\<lparr>hotspotPositions := DEFAULT_HOTSPOTS\<rparr>))"

text \<open>
  \<open>createHotspotMeshes\<close>: one marker per node of the graph that has a position
  (\<open>if (!pos) continue\<close>); the marker carries the node's number in \<open>userData.panoIndex\<close>.
\<close>

definition createHotspotMeshes :: "tour \<Rightarrow> tour" where
  "createHotspotMeshes s =
     s\<lparr>hotspotMeshes :=
         map index (filter (\<lambda>p. hotspotPositions s (index p) \<noteq> None) (panoGraph s))\<rparr>"

section \<open>Teleport animation\<close>

text \<open>
  \<^verbatim>\<open>
  const p = Math.min(elapsed / duration, 1);
  const e = p < 0.5 ? 4 * p * p * p : 1 - Math.pow(-2 * p + 2, 3) / 2;
  camera.position.lerpVectors(startPos, endPos, e);
  controls.target.lerpVectors(startTarget, endTarget, e);
  controls.update();
  if (p < 1) requestAnimationFrame(animateCamera); else isAnimating = false;
  \<close>
  The same lines stand in both versions of the tour. \<open>controls.update()\<close> belongs to the
  orbit control of the rendering library: it may move the camera and its own target, and is
  a parameter here, a function on that pair.
\<close>

type_synonym orbit_update = "vec3 \<times> vec3 \<Rightarrow> vec3 \<times> vec3"

definition controls_update :: "orbit_update \<Rightarrow> tour \<Rightarrow> tour" where
  "controls_update upd s =
     (let (p, t) = upd (camera_position s, controls_target s)
      in s\<lparr>camera_position := p, controls_target := t\<rparr>)"

text \<open>An orbit control at rest: its update leaves the camera and the target where they are.\<close>

definition orbit_at_rest :: orbit_update where
  "orbit_at_rest pose = pose"

text \<open>
  \<open>initScene\<close> turns the control's damping on (\<open>enableDamping = true\<close>), and the render loop
  calls its update in dollhouse mode only. While a pan is still decaying, an update shifts
  the target by the step that remains and the camera with it; a step pending when a panorama
  is entered is therefore taken by the update that \<open>exitPanorama\<close> calls.
\<close>

definition vec3_add :: "vec3 \<Rightarrow> vec3 \<Rightarrow> vec3" where
  "vec3_add a b = Vec3 (vx a + vx b) (vy a + vy b) (vz a + vz b)"

definition orbit_pan_step :: "vec3 \<Rightarrow> orbit_update" where
  "orbit_pan_step d pose = (vec3_add (fst pose) d, vec3_add (snd pose) d)"

definition ease :: "real \<Rightarrow> real" where
  "ease p = (if p < 0.5 then 4 * p * p * p else 1 - (- 2 * p + 2) ^ 3 / 2)"

definition lerpVectors :: "vec3 \<Rightarrow> vec3 \<Rightarrow> real \<Rightarrow> vec3" where
  "lerpVectors v1 v2 alpha =
     Vec3 (vx v1 + (vx v2 - vx v1) * alpha) (vy v1 + (vy v2 - vy v1) * alpha)
       (vz v1 + (vz v2 - vz v1) * alpha)"

text \<open>What the closure \<open>animateCamera\<close> captured when \<open>teleportTo\<close> started.\<close>

record teleport =
  startTime :: real
  startPos :: vec3
  endPos :: vec3
  startTarget :: vec3
  endTarget :: vec3

definition animateCamera :: "orbit_update \<Rightarrow> teleport \<Rightarrow> real \<Rightarrow> tour \<Rightarrow> tour" where
  "animateCamera upd tp t s =
     (let elapsed = t - startTime tp;
          p = min (elapsed / 1000) 1;
          e = ease p;
          s1 = controls_update upd
                 (s\<lparr>camera_position := lerpVectors (startPos tp) (endPos tp) e,
                    controls_target := lerpVectors (startTarget tp) (endTarget tp) e\<rparr>)
      in if p < 1 then s1 else s1\<lparr>isAnimating := False\<rparr>)"

section \<open>Panorama mode\<close>

text \<open>
  \<open>loadPanoTexture\<close> hands the path of the node's image to the texture loader. The image
  arrives later; its callback shows it and calls \<open>createPanoArrows\<close>.
\<close>

definition loadPanoTexture :: "pano \<Rightarrow> tour \<Rightarrow> tour" where
  "loadPanoTexture pano s =
     s\<lparr>texture_requests := texture_requests s @ [''../360_casa/'' @ file_name pano]\<rparr>"

text \<open>
  \<^verbatim>\<open>
  function enterPanorama(panoNum) {
      const pano = getPanoByNumber(panoNum);
      if (!pano) return;
      currentMode = 'panorama';
      currentPanoIndex = pano.arrayIdx;
      savedCameraPos = camera.position.clone();
      savedControlsTarget = controls.target.clone();
      savedCameraFov = camera.fov;
      savedCameraNear = camera.near;
      savedCameraFar = camera.far;
      panoFov = 60;
      camera.fov = 60;
      ...
      controls.enabled = false;
      camera.position.set(0, 0, 0);
      camera.near = 0.1;
      camera.far = 1100;
      camera.updateProjectionMatrix();
      panoYaw = 0;
      panoPitch = 0;
      loadPanoTexture(pano);
      updatePanoLabel(pano);
  }
  \<close>
\<close>

definition enterPanorama :: "enat \<Rightarrow> tour \<Rightarrow> tour" where
  "enterPanorama panoNum s =
     (case getPanoByNumber (panoGraph s) panoNum of
        None \<Rightarrow> s
      | Some pano \<Rightarrow>
          loadPanoTexture pano
            (s\<lparr>currentMode := Panorama,
               currentPanoIndex := int (arrayIdx pano),
               savedCameraPos := Some (camera_position s),
               savedControlsTarget := Some (controls_target s),
               savedCameraFov := camera_fov s,
               savedCameraNear := camera_near s,
               savedCameraFar := camera_far s,
               panoFov := 60,
               camera_fov := 60,
               controls_enabled := False,
               camera_position := Vec3 0 0 0,
               camera_near := 0.1,
               camera_far := 1100,
               panoYaw := 0,
               panoPitch := 0\<rparr>))"

definition removePanoArrows :: "tour \<Rightarrow> tour" where
  "removePanoArrows s = s\<lparr>panoArrows := []\<rparr>"

text \<open>
  \<^verbatim>\<open>
  function exitPanorama() {
      currentMode = 'dollhouse';
      if (panoSphere) panoSphere.visible = false;
      removePanoArrows();
      if (savedCameraPos) {
          camera.position.copy(savedCameraPos);
          controls.target.copy(savedControlsTarget);
          camera.fov = savedCameraFov;
          camera.near = savedCameraNear;
          camera.far = savedCameraFar;
          camera.updateProjectionMatrix();
      }
      ...
      controls.enabled = true;
      controls.update();
      ...
  }
  \<close>
  \<open>savedCameraPos\<close> and \<open>savedControlsTarget\<close> are assigned together, by \<open>enterPanorama\<close>
  only. Were the second still \<open>null\<close> when the first is not, \<open>copy\<close> would throw after the
  position is restored, and the handler would end there.
\<close>

definition exitPanorama :: "orbit_update \<Rightarrow> tour \<Rightarrow> tour" where
  "exitPanorama upd s =
     (let s1 = removePanoArrows (s\<lparr>currentMode := Dollhouse\<rparr>)
      in case savedCameraPos s1 of
           None \<Rightarrow> controls_update upd (s1\<lparr>controls_enabled := True\<rparr>)
         | Some pos \<Rightarrow>
             (case savedControlsTarget s1 of
                None \<Rightarrow> s1\<lparr>camera_position := pos\<rparr>
              | Some tgt \<Rightarrow>
                  controls_update upd
                    (s1\<lparr>camera_position := pos,
                        controls_target := tgt,
                        camera_fov := savedCameraFov s1,
                        camera_near := savedCameraNear s1,
                        camera_far := savedCameraFar s1,
                        controls_enabled := True\<rparr>)))"

text \<open>
  \<^verbatim>\<open>
  function navigatePano(pano) {
      if (!pano) return;
      currentPanoIndex = pano.arrayIdx;
      panoYaw = 0; panoPitch = 0; panoFov = 60; camera.fov = 60;
      camera.updateProjectionMatrix();
      loadPanoTexture(pano);
      updatePanoLabel(pano);
  }
  \<close>
  Its only caller passes the node a floor marker was made for, never \<open>null\<close>.
\<close>

definition navigatePano :: "pano \<Rightarrow> tour \<Rightarrow> tour" where
  "navigatePano pano s =
     loadPanoTexture pano
       (s\<lparr>currentPanoIndex := int (arrayIdx pano), panoYaw := 0, panoPitch := 0,
          panoFov := 60, camera_fov := 60\<rparr>)"

section \<open>Floor markers\<close>

text \<open>
  \<open>Math.atan2(y, x)\<close> on finite numbers: the angle of the point \<open>(x, y)\<close>, in
  \<open>(-\<pi>, \<pi>]\<close>, and 0 at the origin. \<open>THREE.MathUtils.radToDeg\<close> and \<open>degToRad\<close>
  multiply by \<open>180 / \<pi>\<close> and \<open>\<pi> / 180\<close>.
\<close>

definition atan2 :: "real \<Rightarrow> real \<Rightarrow> real" where
  "atan2 y x =
     (if 0 < x then arctan (y / x)
      else if x < 0 then (if 0 \<le> y then arctan (y / x) + pi else arctan (y / x) - pi)
      else if 0 < y then pi / 2
      else if y < 0 then - pi / 2
      else 0)"

definition radToDeg :: "real \<Rightarrow> real" where
  "radToDeg radians = radians * (180 / pi)"

definition degToRad :: "real \<Rightarrow> real" where
  "degToRad degrees = degrees * (pi / 180)"

text \<open>\<open>panoGraph[currentPanoIndex]\<close>: \<open>undefined\<close> outside the array, as for \<open>-1\<close>.\<close>

definition pano_at :: "pano list \<Rightarrow> int \<Rightarrow> pano option" where
  "pano_at g i = (if 0 \<le> i \<and> nat i < length g then Some (g ! nat i) else None)"

text \<open>
  \<open>createFloorCircle(label, yawDeg, true, onClick)\<close>: the group stands on the floor,
  25 units from the viewer along the yaw.
\<close>

definition createFloorCircle :: "real \<Rightarrow> pano \<Rightarrow> arrow" where
  "createFloorCircle yaw targetPano =
     (let theta = degToRad yaw; r = 25
      in \<lparr>yawDeg = yaw,
          group_position = Vec3 (r * cos theta) (- 12) (r * sin theta),
          onClick_target = targetPano\<rparr>)"

text \<open>
  \<^verbatim>\<open>
  function createPanoArrows() {
      removePanoArrows();
      const pano = panoGraph[currentPanoIndex];
      if (!pano) return;
      const currentPos = hotspotPositions[pano.index];
      if (!currentPos) return;
      const connections = PANO_CONNECTIONS[pano.index] || [];
      for (const targetIndex of connections) {
          const targetPano = getPanoByNumber(targetIndex);
          const targetPos = hotspotPositions[targetIndex];
          if (!targetPano || !targetPos) continue;
          const dx = targetPos.x - currentPos.x;
          const dz = targetPos.z - currentPos.z;
          const worldYaw = THREE.MathUtils.radToDeg(Math.atan2(dz, dx));
          const offset = PANO_NORTH_OFFSET[pano.index] || 0;
          const yawDeg = worldYaw - offset;
          const obj = createFloorCircle(friendlyName(targetPano.file), yawDeg, true,
              () => navigatePano(targetPano));
          panoArrows.push(obj);
      }
  }
  \<close>
  The body of the loop is \<open>pano_arrow\<close>: the marker for one connection, or none when the
  loop continues.
\<close>

definition pano_arrow :: "tour \<Rightarrow> pano \<Rightarrow> vec3 \<Rightarrow> enat \<Rightarrow> arrow option" where
  "pano_arrow s pano currentPos targetIndex =
     (case getPanoByNumber (panoGraph s) targetIndex of
        None \<Rightarrow> None
      | Some targetPano \<Rightarrow>
          (case hotspotPositions s targetIndex of
             None \<Rightarrow> None
           | Some targetPos \<Rightarrow>
               (let dx = vx targetPos - vx currentPos;
                    dz = vz targetPos - vz currentPos;
                    worldYaw = radToDeg (atan2 dz dx);
                    offset = (case PANO_NORTH_OFFSET (index pano) of None \<Rightarrow> 0 | Some v \<Rightarrow> v)
                in Some (createFloorCircle (worldYaw - offset) targetPano))))"

definition createPanoArrows :: "tour \<Rightarrow> tour" where
  "createPanoArrows s =
     (let s0 = removePanoArrows s
      in case pano_at (panoGraph s0) (currentPanoIndex s0) of
           None \<Rightarrow> s0
         | Some pano \<Rightarrow>
             (case hotspotPositions s0 (index pano) of
                None \<Rightarrow> s0
              | Some currentPos \<Rightarrow>
                  (let connections =
                         (case PANO_CONNECTIONS (index pano) of None \<Rightarrow> [] | Some c \<Rightarrow> c)
                   in s0\<lparr>panoArrows := List.map_filter (pano_arrow s0 pano currentPos) connections\<rparr>)))"

section \<open>Pointer, wheel and touch input\<close>

text \<open>
  An event as the handlers read it: \<open>clientX\<close> and \<open>clientY\<close> are the coordinates a handler
  resolves (\<open>e.clientX\<close>, else those of the first touch, else 0), \<open>deltaY\<close> the wheel delta,
  \<open>touches\<close> the touch points of a touch event.
\<close>

record event =
  clientX :: real
  clientY :: real
  deltaY :: real
  touches :: "(real \<times> real) list"

definition onPanoPointerDown :: "event \<Rightarrow> tour \<Rightarrow> tour" where
  "onPanoPointerDown e s =
     (if currentMode s \<noteq> Panorama then s
      else s\<lparr>panoPointerDown := True, panoPointerX := clientX e, panoPointerY := clientY e\<rparr>)"

definition onPanoPointerMove :: "event \<Rightarrow> tour \<Rightarrow> tour" where
  "onPanoPointerMove e s =
     (if currentMode s \<noteq> Panorama \<or> \<not> panoPointerDown s then s
      else
        (let x = clientX e; y = clientY e;
             dx = x - panoPointerX s; dy = y - panoPointerY s
         in s\<lparr>panoPointerX := x, panoPointerY := y,
              panoYaw := panoYaw s - dx * 0.3,
              panoPitch := max (- 85) (min 85 (panoPitch s + dy * 0.3))\<rparr>))"

definition onPanoPointerUp :: "tour \<Rightarrow> tour" where
  "onPanoPointerUp s = s\<lparr>panoPointerDown := False\<rparr>"

text \<open>
  \<^verbatim>\<open>
  function onPanoWheel(e) {
      if (currentMode !== 'panorama') return;
      e.preventDefault();
      panoFov += e.deltaY * 0.05;
      panoFov = Math.max(30, Math.min(100, panoFov));
      camera.fov = panoFov;
      camera.updateProjectionMatrix();
  }
  \<close>
\<close>

definition onPanoWheel :: "event \<Rightarrow> tour \<Rightarrow> tour" where
  "onPanoWheel e s =
     (if currentMode s \<noteq> Panorama then s
      else
        (let fov = max 30 (min 100 (panoFov s + deltaY e * 0.05))
         in s\<lparr>panoFov := fov, camera_fov := fov\<rparr>))"

definition getTouchDist :: "real \<times> real \<Rightarrow> real \<times> real \<Rightarrow> real" where
  "getTouchDist t0 t1 =
     (let dx = fst t0 - fst t1; dy = snd t0 - snd t1 in sqrt (dx * dx + dy * dy))"

text \<open>
  The click handler. The renderer's ray test is a parameter: \<open>hit\<close> is the place, in the
  list that is tested (\<open>panoArrows\<close> in panorama mode, \<open>hotspotMeshes\<close> otherwise), of the
  object the first intersection belongs to, or \<open>None\<close> when the ray meets nothing.
  \<^verbatim>\<open>
  if (currentMode === 'panorama') {
      const hits = raycaster.intersectObjects(panoArrows, true);
      if (hits.length > 0) {
          let obj = hits[0].object;
          while (obj && !obj.userData.onClick) obj = obj.parent;
          if (obj && obj.userData.onClick) obj.userData.onClick();
      }
      return;
  }
  const hotHits = raycaster.intersectObjects(hotspotMeshes, true);
  if (hotHits.length > 0) {
      let obj = hotHits[0].object;
      while (obj.parent && !obj.userData.panoIndex) obj = obj.parent;
      if (obj.userData.panoIndex) enterPanorama(obj.userData.panoIndex);
  }
  \<close>
  A \<open>panoIndex\<close> of 0 is falsy: such a marker is passed over.
\<close>

definition onPointerClick :: "nat option \<Rightarrow> tour \<Rightarrow> tour" where
  "onPointerClick hit s =
     (if currentMode s = Panorama then
        (case hit of
           None \<Rightarrow> s
         | Some k \<Rightarrow>
             if k < length (panoArrows s) then navigatePano (onClick_target (panoArrows s ! k)) s
             else s)
      else
        (case hit of
           None \<Rightarrow> s
         | Some k \<Rightarrow>
             if k < length (hotspotMeshes s) \<and> hotspotMeshes s ! k \<noteq> 0
             then enterPanorama (hotspotMeshes s ! k) s
             else s))"

text \<open>
  \<^verbatim>\<open>
  function onGlobalPointerDown(e) {
      pointerDownTime = Date.now();
      pointerDownPos.x = e.clientX || ...;  pointerDownPos.y = e.clientY || ...;
      onPanoPointerDown(e);
  }
  function onGlobalPointerUp(e) {
      onPanoPointerUp();
      const elapsed = Date.now() - pointerDownTime;
      const cx = e.clientX || ...;  const cy = e.clientY || ...;
      const dist = Math.sqrt((cx - pointerDownPos.x) ** 2 + (cy - pointerDownPos.y) ** 2);
      if (elapsed < 300 && dist < 10) {
          onPointerClick(e);
      }
  }
  \<close>
  \<open>now\<close> is what \<open>Date.now()\<close> returns, in milliseconds.
\<close>

definition onGlobalPointerDown :: "int \<Rightarrow> event \<Rightarrow> tour \<Rightarrow> tour" where
  "onGlobalPointerDown now e s =
     onPanoPointerDown e (s\<lparr>pointerDownTime := now, pointerDownPos := (clientX e, clientY e)\<rparr>)"

definition onGlobalPointerUp :: "nat option \<Rightarrow> int \<Rightarrow> event \<Rightarrow> tour \<Rightarrow> tour" where
  "onGlobalPointerUp hit now e s =
     (let s1 = onPanoPointerUp s;
          elapsed = now - pointerDownTime s1;
          cx = clientX e; cy = clientY e;
          dist = sqrt ((cx - fst (pointerDownPos s1)) ^ 2 + (cy - snd (pointerDownPos s1)) ^ 2)
      in if elapsed < 300 \<and> dist < 10 then onPointerClick hit s1 else s1)"

definition onGlobalPointerMove :: "event \<Rightarrow> tour \<Rightarrow> tour" where
  "onGlobalPointerMove e s = onPanoPointerMove e s"

text \<open>
  The touch listeners of \<open>setupUI\<close>. With two fingers down in panorama mode they keep the
  distance of the fingers and feed its change to the field of view; otherwise they pass the
  event on to the pointer handlers.
  \<^verbatim>\<open>
  canvas.addEventListener('touchmove', (e) => {
      if (currentMode === 'panorama') {
          e.preventDefault();
          if (e.touches.length === 2) {
              const dist = getTouchDist(e);
              const delta = panoPinchDist - dist;
              panoFov += delta * 0.15;
              panoFov = Math.max(30, Math.min(100, panoFov));
              camera.fov = panoFov;
              camera.updateProjectionMatrix();
              panoPinchDist = dist;
              return;
          }
      }
      onGlobalPointerMove(e);
  }, { passive: false });
  \<close>
\<close>

definition touchstart :: "int \<Rightarrow> event \<Rightarrow> tour \<Rightarrow> tour" where
  "touchstart now e s =
     (case touches e of
        [t0, t1] \<Rightarrow>
          if currentMode s = Panorama
          then s\<lparr>panoPinchDist := getTouchDist t0 t1, panoPointerDown := False\<rparr>
          else onGlobalPointerDown now e s
      | _ \<Rightarrow> onGlobalPointerDown now e s)"

definition touchmove :: "event \<Rightarrow> tour \<Rightarrow> tour" where
  "touchmove e s =
     (case touches e of
        [t0, t1] \<Rightarrow>
          if currentMode s = Panorama
          then
            (let dist = getTouchDist t0 t1;
                 delta = panoPinchDist s - dist;
                 fov = max 30 (min 100 (panoFov s + delta * 0.15))
             in s\<lparr>panoFov := fov, camera_fov := fov, panoPinchDist := dist\<rparr>)
          else onGlobalPointerMove e s
      | _ \<Rightarrow> onGlobalPointerMove e s)"

definition touchend :: "nat option \<Rightarrow> int \<Rightarrow> event \<Rightarrow> tour \<Rightarrow> tour" where
  "touchend hit now e s = onGlobalPointerUp hit now e (s\<lparr>panoPinchDist := 0\<rparr>)"

text \<open>\<open>if (e.key === 'Escape' && currentMode === 'panorama') exitPanorama();\<close>\<close>

definition onKeyDown :: "orbit_update \<Rightarrow> string \<Rightarrow> tour \<Rightarrow> tour" where
  "onKeyDown upd key s =
     (if key = ''Escape'' \<and> currentMode s = Panorama then exitPanorama upd s else s)"

text \<open>A zoom input is a wheel event or a touch move with two fingers down.\<close>

datatype zoom_input = Wheel real | Pinch "real \<times> real" "real \<times> real"

definition zoom_event :: "zoom_input \<Rightarrow> event" where
  "zoom_event z =
     (case z of
        Wheel d \<Rightarrow> \<lparr>clientX = 0, clientY = 0, deltaY = d, touches = []\<rparr>
      | Pinch t0 t1 \<Rightarrow> \<lparr>clientX = fst t0, clientY = snd t0, deltaY = 0, touches = [t0, t1]\<rparr>)"

definition zoom :: "tour \<Rightarrow> zoom_input \<Rightarrow> tour" where
  "zoom s z = (case z of Wheel d \<Rightarrow> onPanoWheel (zoom_event z) s | Pinch t0 t1 \<Rightarrow> touchmove (zoom_event z) s)"

section \<open>Runs of the tour\<close>

text \<open>
  Everything that happens after start-up is one of these: a load that completes, an image
  that arrives (its callback calls \<open>createPanoArrows\<close>), an input event, or the back button,
  which calls \<open>exitPanorama\<close>. A run is a finite sequence of them from the initial state.
\<close>

datatype action =
    ManifestLoaded manifest_response
  | HotspotsLoaded "(enat \<rightharpoonup> vec3) option" "(enat \<rightharpoonup> vec3) option"
  | ModelLoaded
  | TextureLoaded
  | PointerDown int event
  | PointerMove event
  | PointerUp "nat option" int event
  | WheelTurned event
  | TouchStart int event
  | TouchMove event
  | TouchEnd "nat option" int event
  | KeyDown string
  | BackButton

fun dispatch :: "orbit_update \<Rightarrow> tour \<Rightarrow> action \<Rightarrow> tour" where
  "dispatch upd s (ManifestLoaded res) = loadManifest res s"
| "dispatch upd s (HotspotsLoaded json stored) = loadHotspotPositions json stored s"
| "dispatch upd s ModelLoaded = createHotspotMeshes s"
| "dispatch upd s TextureLoaded = createPanoArrows s"
| "dispatch upd s (PointerDown now e) = onGlobalPointerDown now e s"
| "dispatch upd s (PointerMove e) = onGlobalPointerMove e s"
| "dispatch upd s (PointerUp hit now e) = onGlobalPointerUp hit now e s"
| "dispatch upd s (WheelTurned e) = onPanoWheel e s"
| "dispatch upd s (TouchStart now e) = touchstart now e s"
| "dispatch upd s (TouchMove e) = touchmove e s"
| "dispatch upd s (TouchEnd hit now e) = touchend hit now e s"
| "dispatch upd s (KeyDown key) = onKeyDown upd key s"
| "dispatch upd s BackButton = exitPanorama upd s"

definition run :: "orbit_update \<Rightarrow> action list \<Rightarrow> tour" where
  "run upd acts = foldl (dispatch upd) initial_state acts"

text \<open>
  What every run keeps: the field of view within 30 and 100 degrees, the pitch within 85
  degrees of the horizon, and a camera snapshot whenever the mode is panorama.
\<close>

definition settled :: "tour \<Rightarrow> bool" where
  "settled s =
     (30 \<le> panoFov s \<and> panoFov s \<le> 100 \<and> - 85 \<le> panoPitch s \<and> panoPitch s \<le> 85
      \<and> (currentMode s = Panorama \<longrightarrow> savedCameraPos s \<noteq> None \<and> savedControlsTarget s \<noteq> None))"

text \<open>A pointer event at a point of the screen.\<close>

definition pointer_at :: "real \<Rightarrow> real \<Rightarrow> event" where
  "pointer_at x y = \<lparr>clientX = x, clientY = y, deltaY = 0, touches = []\<rparr>"

section \<open>Two small tours for the worked examples\<close>

text \<open>
  A manifest of three rooms, with the built-in hotspot positions (which know rooms 1 to 7,
  so room 10 has none), and the markers made for it.
\<close>

definition demo_files :: "string list" where
  "demo_files = [''room-3.jpg'', ''room-1.jpg'', ''room-10.jpg'']"

definition demo_state :: tour where
  "demo_state =
     createHotspotMeshes
       (loadHotspotPositions None None (loadManifest (Manifest (Some demo_files)) initial_state))"

text \<open>
  Rooms 3, 4 and 5 with room 4 at the origin, room 3 one unit along \<open>x\<close> and room 5 one
  unit along \<open>z\<close>; room 4 connects to 3 and 5 and its orientation offset is 0. The second
  position file leaves room 5 out.
\<close>

definition bearing_positions :: "enat \<rightharpoonup> vec3" where
  "bearing_positions = [4 \<mapsto> Vec3 0 0 0, 3 \<mapsto> Vec3 1 0 0, 5 \<mapsto> Vec3 0 0 1]"

definition bearing_positions_without_5 :: "enat \<rightharpoonup> vec3" where
  "bearing_positions_without_5 = [4 \<mapsto> Vec3 0 0 0, 3 \<mapsto> Vec3 1 0 0]"

definition bearing_state :: "(enat \<rightharpoonup> vec3) \<Rightarrow> tour" where
  "bearing_state positions =
     enterPanorama 4
       (loadHotspotPositions (Some positions) None
          (loadManifest (Manifest (Some [''pano_3.jpg'', ''pano_4.jpg'', ''pano_5.jpg'']))
             initial_state))"

text \<open>
  A run that leaves floor markers behind in dollhouse mode. The manifest, the positions and
  the model load; a tap on the marker of room 4 opens its panorama; the visitor goes back
  before the image has arrived; then the image arrives and its callback makes the floor
  markers of room 4, towards rooms 3 and 5.
\<close>

definition late_image_run :: "action list" where
  "late_image_run =
     [ManifestLoaded (Manifest (Some [''pano_3.jpg'', ''pano_4.jpg'', ''pano_5.jpg''])),
      HotspotsLoaded (Some bearing_positions) None,
      ModelLoaded,
      PointerDown 1000 (pointer_at 100 200),
      PointerUp (Some 1) 1100 (pointer_at 100 200),
      BackButton,
      TextureLoaded]"

definition late_image_state :: tour where
  "late_image_state = run orbit_at_rest late_image_run"

section \<open>The parser meets its description\<close>

lemma not_word_dot: "\<not> is_word CHR ''.''"
  by (simp add: is_word_def)

lemma replace_ext_match:
  "w \<noteq> [] \<Longrightarrow> list_all is_word w \<Longrightarrow> replace_ext (p @ CHR ''.'' # w) = p"
  by (induction p) (simp_all add: not_word_dot)

lemma replace_ext_cases:
  "replace_ext s = s \<or> (\<exists>p w. s = p @ CHR ''.'' # w \<and> w \<noteq> [] \<and> list_all is_word w)"
proof (induction s)
  case Nil
  then show ?case by simp
next
  case (Cons c cs)
  show ?case
  proof (cases "c = CHR ''.'' \<and> cs \<noteq> [] \<and> list_all is_word cs")
    case True
    then have "c # cs = [] @ CHR ''.'' # cs \<and> cs \<noteq> [] \<and> list_all is_word cs" by simp
    then show ?thesis by blast
  next
    case False
    from Cons.IH show ?thesis
    proof
      assume "replace_ext cs = cs"
      with False show ?thesis by auto
    next
      assume "\<exists>p w. cs = p @ CHR ''.'' # w \<and> w \<noteq> [] \<and> list_all is_word w"
      then obtain p w where "cs = p @ CHR ''.'' # w" "w \<noteq> []" "list_all is_word w" by blast
      then have "c # cs = (c # p) @ CHR ''.'' # w \<and> w \<noteq> [] \<and> list_all is_word w" by simp
      then show ?thesis by blast
    qed
  qed
qed

lemma spec_split:
  assumes "w \<noteq> []" "list_all is_word w"
  shows "strip_extension_spec (p @ CHR ''.'' # w) = p"
proof -
  have a: "\<And>x. x \<in> set (rev w) \<Longrightarrow> is_word x" using assms by (simp add: list_all_iff)
  have "takeWhile is_word (rev w @ CHR ''.'' # rev p) = rev w"
    by (subst takeWhile_append2) (use a in \<open>auto simp: not_word_dot\<close>)
  moreover have "dropWhile is_word (rev w @ CHR ''.'' # rev p) = CHR ''.'' # rev p"
    by (subst dropWhile_append2) (use a in \<open>auto simp: not_word_dot\<close>)
  ultimately show ?thesis using assms by (simp add: strip_extension_spec_def)
qed

lemma replace_ext_spec: "replace_ext s = strip_extension_spec s"
proof (cases "\<exists>p w. s = p @ CHR ''.'' # w \<and> w \<noteq> [] \<and> list_all is_word w")
  case True
  then show ?thesis by (auto simp: replace_ext_match spec_split)
next
  case False
  then have 1: "replace_ext s = s" using replace_ext_cases by blast
  have "strip_extension_spec s = s"
  proof (rule ccontr)
    assume ne: "strip_extension_spec s \<noteq> s"
    define ext where "ext = takeWhile is_word (rev s)"
    define rest where "rest = dropWhile is_word (rev s)"
    from ne have c: "ext \<noteq> []" "rest \<noteq> []" "hd rest = CHR ''.''"
      by (auto simp: strip_extension_spec_def Let_def ext_def rest_def split: if_splits)
    have "rev s = ext @ rest" by (simp add: ext_def rest_def)
    then have "rev s = ext @ CHR ''.'' # tl rest" using c by (cases rest) auto
    then have "s = rev (tl rest) @ CHR ''.'' # rev ext"
      by (metis rev_append rev.simps(2) rev_rev_ident append.assoc append_Cons append_Nil)
    moreover have "list_all is_word (rev ext)"
      by (simp add: ext_def list_all_iff) (meson set_takeWhileD)
    moreover have "rev ext \<noteq> []" using c by simp
    ultimately show False using False by blast
  qed
  with 1 show ?thesis by simp
qed

lemma takeWhile_snoc_not: "\<not> P c \<Longrightarrow> takeWhile P (xs @ [c]) = takeWhile P xs"
  by (induction xs) auto

lemma match_digits_spec:
  "match_digits s = (if trailing_digits_spec s = [] then None else Some (trailing_digits_spec s))"
proof (induction s)
  case Nil
  then show ?case by (simp add: trailing_digits_spec_def)
next
  case (Cons c cs)
  show ?case
  proof (cases "list_all is_digit (c # cs)")
    case True
    then have "takeWhile is_digit (rev cs @ [c]) = rev cs @ [c]"
      unfolding takeWhile_eq_all_conv by (simp add: list_all_iff)
    then have "trailing_digits_spec (c # cs) = c # cs"
      unfolding trailing_digits_spec_def rev.simps by (simp only: rev_append rev_rev_ident rev.simps append.simps)
    with True show ?thesis by simp
  next
    case False
    have "takeWhile is_digit (rev cs @ [c]) = takeWhile is_digit (rev cs)"
    proof (cases "list_all is_digit cs")
      case True
      with False have "\<not> is_digit c" by simp
      then show ?thesis by (rule takeWhile_snoc_not)
    next
      case False
      then obtain x where "x \<in> set (rev cs)" "\<not> is_digit x" by (auto simp: list_all_iff)
      then show ?thesis by (simp add: takeWhile_append1)
    qed
    then have "trailing_digits_spec (c # cs) = trailing_digits_spec cs"
      by (simp add: trailing_digits_spec_def)
    with False Cons.IH show ?thesis by auto
  qed
qed

lemma parseInt_snoc: "parseInt (ds @ [c]) = 10 * parseInt ds + digit_val c"
  by (simp add: parseInt_def)

lemma decimal_spec_snoc: "decimal_spec (ds @ [c]) = 10 * decimal_spec ds + digit_val c"
  unfolding decimal_spec_def
  by (simp add: sum.lessThan_Suc_shift sum_distrib_left mult_ac del: sum.lessThan_Suc)

lemma parseInt_decimal: "parseInt ds = decimal_spec ds"
proof (induction ds rule: rev_induct)
  case Nil
  then show ?case by (simp add: parseInt_def decimal_spec_def)
next
  case (snoc c ds)
  then show ?case by (simp add: parseInt_snoc decimal_spec_snoc)
qed

lemma trailingNumber_spec_eq: "trailingNumber s = trailingNumber_spec s"
  by (simp add: trailingNumber_def trailingNumber_spec_def match_digits_spec replace_ext_spec
      parseInt_decimal Let_def)

section \<open>The links of the graph\<close>

lemma length_make_nodes: "length (make_nodes fs) = length fs"
  by (simp add: make_nodes_def)

lemma nth_make_nodes:
  "i < length fs \<Longrightarrow> make_nodes fs ! i =
     \<lparr>index = trailingNumber (fs ! i), file_name = fs ! i, arrayIdx = i, prev = None, nxt = None\<rparr>"
  by (simp add: make_nodes_def nth_enumerate_eq)

lemma length_set_links: "length (set_links g i) = length g"
  by (simp add: set_links_def)

lemma length_foldl_set_links: "length (foldl set_links g is) = length g"
  by (induction "is" arbitrary: g) (simp_all add: length_set_links)

lemma prev_position:
  assumes "i < n"
  shows "nat ((int i - 1 + int n) mod int n) = (i + (n - 1)) mod n"
proof -
  from assms have "int i - 1 + int n = int (i + (n - 1))" by simp
  then show ?thesis by (metis nat_int zmod_int)
qed

lemma nth_set_links:
  assumes "k < length h" "i < length h"
  shows "set_links h k ! i =
     (if i = k
      then (h ! k)\<lparr>prev := Some ((k + (length h - 1)) mod length h),
                   nxt := Some ((k + 1) mod length h)\<rparr>
      else h ! i)"
proof -
  have pp: "nat ((int k - 1 + int (length h)) mod int (length h)) = (k + (length h - 1)) mod length h"
    using assms(1) by (rule prev_position)
  show ?thesis unfolding set_links_def pp using assms by (simp add: nth_list_update)
qed

lemma nth_foldl_set_links:
  "k \<le> length g \<Longrightarrow> i < length g \<Longrightarrow>
   foldl set_links g [0..<k] ! i =
     (if i < k
      then (g ! i)\<lparr>prev := Some ((i + (length g - 1)) mod length g),
                   nxt := Some ((i + 1) mod length g)\<rparr>
      else g ! i)"
proof (induction k arbitrary: i)
  case 0
  then show ?case by simp
next
  case (Suc k)
  let ?h = "foldl set_links g [0..<k]"
  have len: "length ?h = length g" by (rule length_foldl_set_links)
  have k: "k < length g" using Suc.prems by simp
  have "foldl set_links g [0..<Suc k] ! i = set_links ?h k ! i" by simp
  also have "\<dots> = (if i = k then (?h ! k)\<lparr>prev := Some ((k + (length g - 1)) mod length g),
                   nxt := Some ((k + 1) mod length g)\<rparr> else ?h ! i)"
    using nth_set_links [of k ?h i] k Suc.prems(2) by (simp only: len)
  finally show ?case using Suc.IH [of i] Suc.IH [of k] k Suc.prems
    by auto
qed

lemma length_build_graph: "length (build_graph fs) = length fs"
  by (simp add: build_graph_def Let_def length_foldl_set_links length_make_nodes)

lemma nth_build_graph:
  assumes "i < length fs"
  shows "build_graph fs ! i =
     \<lparr>index = trailingNumber (sort_key trailingNumber fs ! i),
      file_name = sort_key trailingNumber fs ! i, arrayIdx = i,
      prev = Some ((i + (length fs - 1)) mod length fs), nxt = Some ((i + 1) mod length fs)\<rparr>"
  using assms
  by (simp add: build_graph_def Let_def nth_foldl_set_links length_make_nodes nth_make_nodes)

lemma map_file_build_graph: "map file_name (build_graph fs) = sort_key trailingNumber fs"
  by (rule nth_equalityI) (simp_all add: length_build_graph nth_build_graph)

lemma map_index_build_graph:
  "map index (build_graph fs) = map trailingNumber (sort_key trailingNumber fs)"
  by (rule nth_equalityI) (simp_all add: length_build_graph nth_build_graph)

lemma follow_nxt:
  "i < length fs \<Longrightarrow> follow nxt (build_graph fs) k i = Some ((i + k) mod length fs)"
proof (induction k arbitrary: i)
  case 0
  then show ?case by (simp add: length_build_graph)
next
  case (Suc k)
  have "0 < length fs" using Suc.prems by auto
  then have "(i + 1) mod length fs < length fs" by simp
  from Suc.IH [OF this] Suc.prems show ?case
    by (simp add: length_build_graph nth_build_graph mod_add_left_eq add.assoc)
qed

lemma follow_prev:
  "i < length fs \<Longrightarrow>
   follow prev (build_graph fs) k i = Some ((i + k * (length fs - 1)) mod length fs)"
proof (induction k arbitrary: i)
  case 0
  then show ?case by (simp add: length_build_graph)
next
  case (Suc k)
  have "0 < length fs" using Suc.prems by auto
  then have "(i + (length fs - 1)) mod length fs < length fs" by simp
  from Suc.IH [OF this] Suc.prems show ?case
    by (simp add: length_build_graph nth_build_graph mod_add_left_eq add.assoc)
qed

lemma next_cycle:
  assumes "fs \<noteq> []"
  shows "map (\<lambda>k. follow nxt (build_graph fs) k 0) [0..<length fs] = map Some [0..<length fs]"
  using assms by (intro nth_equalityI) (simp_all add: follow_nxt)

lemma demo_graph:
  "build_graph demo_files =
  [\<lparr>index = 1, file_name = ''room-1.jpg'', arrayIdx = 0, prev = Some 2, nxt = Some 1\<rparr>,
   \<lparr>index = 3, file_name = ''room-3.jpg'', arrayIdx = 1, prev = Some 0, nxt = Some 2\<rparr>,
   \<lparr>index = 10, file_name = ''room-10.jpg'', arrayIdx = 2, prev = Some 1, nxt = Some 0\<rparr>]"
  by (simp add: demo_files_def build_graph_def make_nodes_def set_links_def trailingNumber_def
      is_digit_def is_word_def parseInt_def digit_val_def numeral_eq_enat one_enat_def upt_rec)

lemma sorted_index_build_graph: "sorted (map index (build_graph fs))"
  by (simp add: map_index_build_graph)

lemma infinite_last:
  assumes "i < length fs" "j < length fs"
    and "index (build_graph fs ! i) = \<infinity>" "index (build_graph fs ! j) \<noteq> \<infinity>"
  shows "j < i"
proof (rule ccontr)
  assume "\<not> j < i"
  then have "i \<le> j" by simp
  with sorted_index_build_graph [of fs] assms(2)
  have "map index (build_graph fs) ! i \<le> map index (build_graph fs) ! j"
    by (simp add: sorted_iff_nth_mono length_build_graph)
  with assms show False by (simp add: length_build_graph)
qed

lemma mod_step_back: "i < n \<Longrightarrow> ((i + 1) mod n + (n - 1)) mod n = (i::nat)"
proof -
  assume i: "i < n"
  have "((i + 1) mod n + (n - 1)) mod n = ((i + 1) + (n - 1)) mod n" by (rule mod_add_left_eq)
  also have "(i + 1) + (n - 1) = i + n" using i by arith
  also have "(i + n) mod n = i" using i by simp
  finally show ?thesis .
qed

lemma mod_back_step: "i < n \<Longrightarrow> ((i + (n - 1)) mod n + 1) mod n = (i::nat)"
proof -
  assume i: "i < n"
  have "((i + (n - 1)) mod n + 1) mod n = ((i + (n - 1)) + 1) mod n" by (rule mod_add_left_eq)
  also have "(i + (n - 1)) + 1 = i + n" using i by arith
  also have "(i + n) mod n = i" using i by simp
  finally show ?thesis .
qed

lemma links_of_build_graph:
  assumes "i < length fs"
  shows "nxt (build_graph fs ! i) = Some ((i + 1) mod length fs)
       \<and> prev (build_graph fs ! i) = Some ((i + (length fs - 1)) mod length fs)"
  by (simp only: nth_build_graph [OF assms] pano.select_convs simp_thms)

lemma next_prev_inverse:
  assumes "i < length fs"
  shows "\<exists>j < length fs. nxt (build_graph fs ! i) = Some j \<and> prev (build_graph fs ! j) = Some i"
proof (intro exI conjI)
  have n: "0 < length fs" using assms by auto
  then show j: "(i + 1) mod length fs < length fs" by (rule mod_less_divisor)
  show "nxt (build_graph fs ! i) = Some ((i + 1) mod length fs)"
    using links_of_build_graph [OF assms] by (rule conjunct1)
  show "prev (build_graph fs ! ((i + 1) mod length fs)) = Some i"
    using links_of_build_graph [OF j] by (simp only: mod_step_back [OF assms])
qed

lemma prev_next_inverse:
  assumes "i < length fs"
  shows "\<exists>j < length fs. prev (build_graph fs ! i) = Some j \<and> nxt (build_graph fs ! j) = Some i"
proof (intro exI conjI)
  have n: "0 < length fs" using assms by auto
  then show j: "(i + (length fs - 1)) mod length fs < length fs" by (rule mod_less_divisor)
  show "prev (build_graph fs ! i) = Some ((i + (length fs - 1)) mod length fs)"
    using links_of_build_graph [OF assms] by (rule conjunct2)
  show "nxt (build_graph fs ! ((i + (length fs - 1)) mod length fs)) = Some i"
    using links_of_build_graph [OF j] by (simp only: mod_back_step [OF assms])
qed

lemma follow_nxt_home: "fs \<noteq> [] \<Longrightarrow> follow nxt (build_graph fs) (length fs) 0 = Some 0"
  using follow_nxt [of 0 fs "length fs"] by simp

section \<open>Claims about the manifest and the parser\<close>

text \<open>
  Claim C5. Loading a manifest parses the trailing integer of each file name (the infinite
  sentinel when the name has no trailing digits, sorted last), sorts the names ascending by
  that number and links \<open>prev\<close> and \<open>next\<close> circularly. For every non-empty manifest the
  links form one cycle through every node: \<open>next\<close> of the node at position \<open>i\<close> is the
  node at \<open>(i + 1) mod n\<close>, \<open>prev\<close> undoes \<open>next\<close> and \<open>next\<close> undoes \<open>prev\<close>, the
  walk along \<open>next\<close> from the first node visits the positions \<open>0, \<dots>, n - 1\<close> in turn, each
  once, and is back at the first node after \<open>n\<close> steps. For
  \<open>["room-3.jpg", "room-1.jpg", "room-10.jpg"]\<close> the order is room-1, room-3, room-10 and
  \<open>next\<close> of room-10 is room-1.
\<close>

theorem manifest_graph_is_one_cycle:
  "(let g = panoGraph (loadManifest (Manifest (Some files)) s); n = length g in
      map file_name g = sort_key trailingNumber files
    \<and> map index g = map trailingNumber (map file_name g)
    \<and> sorted (map index g)
    \<and> (\<forall>f. (trailingNumber f = \<infinity>) = (match_digits (replace_ext f) = None))
    \<and> (\<forall>i j. i < n \<longrightarrow> j < n \<longrightarrow> index (g ! i) = \<infinity> \<longrightarrow> index (g ! j) \<noteq> \<infinity> \<longrightarrow> j < i)
    \<and> (files \<noteq> [] \<longrightarrow>
          n = length files
        \<and> (\<forall>i < n. nxt (g ! i) = Some ((i + 1) mod n) \<and> prev (g ! i) = Some ((i + (n - 1)) mod n))
        \<and> (\<forall>i < n. \<exists>j < n. nxt (g ! i) = Some j \<and> prev (g ! j) = Some i)
        \<and> (\<forall>i < n. \<exists>j < n. prev (g ! i) = Some j \<and> nxt (g ! j) = Some i)
        \<and> (\<forall>i < n. \<forall>k. follow nxt g k i = Some ((i + k) mod n))
        \<and> map (\<lambda>k. follow nxt g k 0) [0..<n] = map Some [0..<n]
        \<and> follow nxt g n 0 = Some 0))
   \<and> map file_name (build_graph [''room-3.jpg'', ''room-1.jpg'', ''room-10.jpg''])
        = [''room-1.jpg'', ''room-3.jpg'', ''room-10.jpg'']
   \<and> nxt (build_graph [''room-3.jpg'', ''room-1.jpg'', ''room-10.jpg''] ! 2) = Some 0"
proof -
  let ?g = "build_graph files"
  have g: "panoGraph (loadManifest (Manifest (Some files)) s) = ?g"
    by (simp add: loadManifest_def)
  have 1: "map file_name ?g = sort_key trailingNumber files" by (rule map_file_build_graph)
  have 2: "map index ?g = map trailingNumber (map file_name ?g)"
    by (simp add: map_index_build_graph map_file_build_graph)
  have 3: "sorted (map index ?g)" by (rule sorted_index_build_graph)
  have 4: "\<forall>f. (trailingNumber f = \<infinity>) = (match_digits (replace_ext f) = None)"
    by (simp add: trailingNumber_def split: option.splits)
  have 5: "\<forall>i j. i < length files \<longrightarrow> j < length files \<longrightarrow> index (?g ! i) = \<infinity> \<longrightarrow> index (?g ! j) \<noteq> \<infinity> \<longrightarrow> j < i"
    using infinite_last [of _ files] by blast
  have 6: "files \<noteq> [] \<longrightarrow>
          length files = length files
        \<and> (\<forall>i < length files. nxt (?g ! i) = Some ((i + 1) mod length files) \<and> prev (?g ! i) = Some ((i + (length files - 1)) mod length files))
        \<and> (\<forall>i < length files. \<exists>j < length files. nxt (?g ! i) = Some j \<and> prev (?g ! j) = Some i)
        \<and> (\<forall>i < length files. \<exists>j < length files. prev (?g ! i) = Some j \<and> nxt (?g ! j) = Some i)
        \<and> (\<forall>i < length files. \<forall>k. follow nxt ?g k i = Some ((i + k) mod length files))
        \<and> map (\<lambda>k. follow nxt ?g k 0) [0..<length files] = map Some [0..<length files]
        \<and> follow nxt ?g (length files) 0 = Some 0"
    using next_prev_inverse [of _ files] prev_next_inverse [of _ files]
      links_of_build_graph [of _ files] follow_nxt [of _ files] next_cycle [of files]
      follow_nxt_home [of files]
    by blast
  have 7: "map file_name (build_graph [''room-3.jpg'', ''room-1.jpg'', ''room-10.jpg''])
        = [''room-1.jpg'', ''room-3.jpg'', ''room-10.jpg'']"
    using demo_graph by (simp add: demo_files_def)
  have 8: "nxt (build_graph [''room-3.jpg'', ''room-1.jpg'', ''room-10.jpg''] ! 2) = Some 0"
    using demo_graph by (simp add: demo_files_def)
  show ?thesis unfolding Let_def g length_build_graph using 1 2 3 4 5 6 7 8 by blast
qed

text \<open>The three-room manifest: the walk along \<open>next\<close> from room-1 and the numbers read.\<close>

theorem manifest_graph_is_one_cycle_witness:
  "demo_files \<noteq> []
   \<and> map (\<lambda>k. follow nxt (build_graph demo_files) k 0) [0..<3] = [Some 0, Some 1, Some 2]
   \<and> follow nxt (build_graph demo_files) 3 0 = Some 0
   \<and> map index (build_graph demo_files) = [1, 3, 10]"
proof -
  have ne: "demo_files \<noteq> []" by (simp add: demo_files_def)
  have len: "length (build_graph demo_files) = 3" by (simp add: demo_graph)
  have g: "panoGraph (loadManifest (Manifest (Some demo_files)) initial_state) = build_graph demo_files"
    by (simp add: loadManifest_def)
  from manifest_graph_is_one_cycle [of demo_files initial_state] ne
  have "map (\<lambda>k. follow nxt (build_graph demo_files) k 0) [0..<3] = map Some [0..<3]"
    and "follow nxt (build_graph demo_files) 3 0 = Some 0"
    unfolding Let_def g len by blast+
  moreover have "map Some [0..<3] = [Some 0, Some 1, Some (2::nat)]" by (simp add: upt_rec)
  moreover have "map index (build_graph demo_files) = [1, 3, 10]" by (simp add: demo_graph)
  ultimately show ?thesis using ne by simp
qed

text \<open>
  Claim C10. The parser of the manifest script and the parser of the tour core are equal on
  every file name; both are the parser the specification describes (strip a final
  dot-extension, read the trailing run of decimal digits in base 10, the infinite sentinel
  when no digits remain). Hence sorting a file list by either gives the same order, and the
  core's sort leaves a manifest written by the script as it is.
\<close>

theorem trailingNumber_parsers_agree:
  "trailingNumber_manifest f = trailingNumber f
   \<and> trailingNumber f = trailingNumber_spec f
   \<and> sort_key trailingNumber_manifest fs = sort_key trailingNumber fs
   \<and> sort_key trailingNumber (manifest_files entries) = manifest_files entries"
proof -
  have e: "trailingNumber_manifest = trailingNumber"
    by (rule ext) (simp add: trailingNumber_manifest_def trailingNumber_def)
  have "sorted (map trailingNumber (manifest_files entries))"
    by (simp add: manifest_files_def e)
  then have "sort_key trailingNumber (manifest_files entries) = manifest_files entries"
    by (rule sort_key_id_if_sorted)
  then show ?thesis using e trailingNumber_spec_eq by simp
qed

text \<open>Both parsers on a numbered and on an unnumbered name.\<close>

theorem trailingNumber_parsers_agree_witness:
  "trailingNumber_manifest ''room-10.jpg'' = 10 \<and> trailingNumber ''room-10.jpg'' = 10
   \<and> trailingNumber_spec ''room-10.jpg'' = 10
   \<and> trailingNumber_manifest ''lobby.jpg'' = \<infinity> \<and> trailingNumber_spec ''lobby.jpg'' = \<infinity>
   \<and> sort_key trailingNumber_manifest demo_files = sort_key trailingNumber demo_files"
proof -
  have a: "trailingNumber ''room-10.jpg'' = 10"
    by (simp add: trailingNumber_def is_digit_def is_word_def parseInt_def digit_val_def
        numeral_eq_enat)
  have b: "trailingNumber ''lobby.jpg'' = \<infinity>"
    by (simp add: trailingNumber_def is_digit_def is_word_def)
  from a b trailingNumber_parsers_agree [of "''room-10.jpg''" demo_files "[]"]
    trailingNumber_parsers_agree [of "''lobby.jpg''" demo_files "[]"]
  show ?thesis by simp
qed

section \<open>The example tours, evaluated\<close>

lemma demo_state_graph: "panoGraph demo_state = build_graph demo_files"
  by (simp add: demo_state_def createHotspotMeshes_def loadHotspotPositions_def loadManifest_def)

lemma demo_state_node_1: "getPanoByNumber (panoGraph demo_state) 1 =
   Some \<lparr>index = 1, file_name = ''room-1.jpg'', arrayIdx = 0, prev = Some 2, nxt = Some 1\<rparr>"
  by (simp add: demo_state_graph demo_graph getPanoByNumber_def)

lemma demo_state_eq:
  "demo_state = initial_state\<lparr>panoGraph := build_graph demo_files,
      hotspotPositions := DEFAULT_HOTSPOTS, hotspotMeshes := [1, 3]\<rparr>"
  by (simp add: demo_state_def createHotspotMeshes_def loadHotspotPositions_def loadManifest_def
      demo_graph DEFAULT_HOTSPOTS_def initial_state_def)

lemma demo_enter_1:
  "enterPanorama 1 demo_state =
     demo_state\<lparr>currentMode := Panorama, currentPanoIndex := 0,
       savedCameraPos := Some (Vec3 10 8 10), savedControlsTarget := Some (Vec3 0 0 0),
       savedCameraFov := 60, savedCameraNear := 0.1, savedCameraFar := 1000,
       panoFov := 60, camera_fov := 60, controls_enabled := False,
       camera_position := Vec3 0 0 0, camera_near := 0.1, camera_far := 1100,
       panoYaw := 0, panoPitch := 0, texture_requests := [''../360_casa/room-1.jpg'']\<rparr>"
  by (simp add: enterPanorama_def demo_state_eq demo_graph getPanoByNumber_def
      initial_state_def loadPanoTexture_def)

lemma sqrt_less_10: "sqrt x < 10 \<longleftrightarrow> x < 100"
proof -
  have "sqrt 100 = sqrt (10\<^sup>2)" by simp
  also have "\<dots> = 10" by (simp only: real_sqrt_abs) 
  finally have "sqrt 100 = 10" .
  with real_sqrt_less_iff [of x 100] show ?thesis by simp
qed


lemma bearing_graph:
  "build_graph [''pano_3.jpg'', ''pano_4.jpg'', ''pano_5.jpg''] =
  [\<lparr>index = 3, file_name = ''pano_3.jpg'', arrayIdx = 0, prev = Some 2, nxt = Some 1\<rparr>,
   \<lparr>index = 4, file_name = ''pano_4.jpg'', arrayIdx = 1, prev = Some 0, nxt = Some 2\<rparr>,
   \<lparr>index = 5, file_name = ''pano_5.jpg'', arrayIdx = 2, prev = Some 1, nxt = Some 0\<rparr>]"
  by (simp add: build_graph_def make_nodes_def set_links_def trailingNumber_def
      is_digit_def is_word_def parseInt_def digit_val_def numeral_eq_enat one_enat_def upt_rec)

lemma bearing_state_fields:
  "panoGraph (bearing_state h) = build_graph [''pano_3.jpg'', ''pano_4.jpg'', ''pano_5.jpg'']"
  "currentPanoIndex (bearing_state h) = 1"
  "hotspotPositions (bearing_state h) = h"
  "currentMode (bearing_state h) = Panorama"
  by (simp_all add: bearing_state_def enterPanorama_def loadHotspotPositions_def loadManifest_def
      bearing_graph getPanoByNumber_def loadPanoTexture_def)

lemma atan2_east: "radToDeg (atan2 0 1) = 0"
  by (simp add: atan2_def radToDeg_def)

lemma atan2_north: "radToDeg (atan2 1 0) = 90"
  by (simp add: atan2_def radToDeg_def)

text \<open>The state the late image leaves: dollhouse mode, with the floor markers of room 4.\<close>

lemma late_image_state_eq:
  "late_image_state =
     initial_state\<lparr>panoGraph := build_graph [''pano_3.jpg'', ''pano_4.jpg'', ''pano_5.jpg''],
        hotspotPositions := bearing_positions, hotspotMeshes := [3, 4, 5],
        pointerDownTime := 1000, pointerDownPos := (100, 200),
        currentPanoIndex := 1,
        savedCameraPos := Some (Vec3 10 8 10), savedControlsTarget := Some (Vec3 0 0 0),
        texture_requests := [''../360_casa/pano_4.jpg''],
        panoArrows :=
          [createFloorCircle 0 \<lparr>index = 3, file_name = ''pano_3.jpg'', arrayIdx = 0, prev = Some 2, nxt = Some 1\<rparr>,
           createFloorCircle 90 \<lparr>index = 5, file_name = ''pano_5.jpg'', arrayIdx = 2, prev = Some 1, nxt = Some 0\<rparr>]\<rparr>"
  by (simp add: late_image_state_def late_image_run_def run_def
      loadManifest_def loadHotspotPositions_def createHotspotMeshes_def bearing_graph
      bearing_positions_def initial_state_def
      onGlobalPointerDown_def onPanoPointerDown_def onGlobalPointerUp_def onPanoPointerUp_def
      pointer_at_def sqrt_less_10 Let_def onPointerClick_def enterPanorama_def getPanoByNumber_def
      loadPanoTexture_def exitPanorama_def removePanoArrows_def controls_update_def
      orbit_at_rest_def createPanoArrows_def pano_at_def PANO_CONNECTIONS_def
      PANO_NORTH_OFFSET_def List.map_filter_def pano_arrow_def atan2_east atan2_north)

section \<open>Claims about easing, zoom and taps\<close>

lemma ease_low: "p < 1 / 2 \<Longrightarrow> ease p = 4 * p ^ 3"
  by (simp add: ease_def power3_eq_cube)

lemma ease_high: "1 / 2 \<le> p \<Longrightarrow> ease p = 1 - (2 - 2 * p) ^ 3 / 2"
  by (simp add: ease_def)

lemma cube_mono: "(a::real) \<le> b \<Longrightarrow> a ^ 3 \<le> b ^ 3"
  by (rule power_mono_odd) simp_all

lemma ease_mono:
  assumes "p \<le> q"
  shows "ease p \<le> ease q"
proof (cases "q < 1 / 2")
  case True
  with assms have "p < 1 / 2" by simp
  with True assms show ?thesis by (simp add: ease_low cube_mono)
next
  case q: False
  show ?thesis
  proof (cases "p < 1 / 2")
    case True
    have "p ^ 3 \<le> (1 / 2) ^ 3" using True by (intro cube_mono) simp
    then have a: "ease p \<le> 1 / 2" using True by (simp add: ease_low power3_eq_cube)
    have "(2 - 2 * q) ^ 3 \<le> 1 ^ 3" using q by (intro cube_mono) simp
    then have "1 / 2 \<le> ease q" using q by (simp add: ease_high)
    with a show ?thesis by simp
  next
    case False
    have "(2 - 2 * q) ^ 3 \<le> (2 - 2 * p) ^ 3" using assms by (intro cube_mono) simp
    with False q show ?thesis by (simp add: ease_high)
  qed
qed

text \<open>
  Claim C6. The easing function of the teleport animation, \<open>4p\<^sup>3\<close> for \<open>p < 0.5\<close> and
  \<open>1 - (-2p + 2)\<^sup>3 / 2\<close> otherwise, takes 0 to 0, 0.5 to 0.5 and 1 to 1, and is monotonically
  non-decreasing on \<open>[0, 1]\<close>. (Over the reals.)
\<close>

theorem ease_endpoints_and_monotone:
  "ease 0 = 0 \<and> ease 0.5 = 0.5 \<and> ease 1 = 1
   \<and> (\<forall>p. ease p = (if p < 0.5 then 4 * p ^ 3 else 1 - (- 2 * p + 2) ^ 3 / 2))
   \<and> (\<forall>p q. 0 \<le> p \<longrightarrow> p \<le> q \<longrightarrow> q \<le> 1 \<longrightarrow> ease p \<le> ease q)"
proof -
  have "ease 0 = 0" "ease 0.5 = 0.5" "ease 1 = 1" by (simp_all add: ease_def)
  moreover have "\<forall>p. ease p = (if p < 0.5 then 4 * p ^ 3 else 1 - (- 2 * p + 2) ^ 3 / 2)"
    by (simp add: ease_def power3_eq_cube)
  moreover have "\<forall>p q. 0 \<le> p \<longrightarrow> p \<le> q \<longrightarrow> q \<le> 1 \<longrightarrow> ease p \<le> ease q"
    using ease_mono by blast
  ultimately show ?thesis by blast
qed

text \<open>The eased progress a quarter and three quarters of the way.\<close>

theorem ease_endpoints_and_monotone_witness:
  "ease 0 = 0 \<and> ease 1 = 1 \<and> ease (1 / 4) = 1 / 16 \<and> ease (3 / 4) = 15 / 16
   \<and> ease (1 / 4) \<le> ease (3 / 4)"
proof -
  have "0 \<le> (1 / 4 :: real) \<longrightarrow> (1 / 4 :: real) \<le> 3 / 4 \<longrightarrow> (3 / 4 :: real) \<le> 1
        \<longrightarrow> ease (1 / 4) \<le> ease (3 / 4)"
    using ease_endpoints_and_monotone by blast
  then have "ease (1 / 4) \<le> ease (3 / 4)" by simp
  moreover have "ease (1 / 4) = 1 / 16" "ease (3 / 4) = 15 / 16"
    by (simp_all add: ease_def power3_eq_cube)
  moreover have "ease 0 = 0" "ease 1 = 1" using ease_endpoints_and_monotone by blast+
  ultimately show ?thesis by blast
qed

text \<open>Every handler keeps the bounds, so every run does.\<close>

lemma settled_initial: "settled initial_state"
  by (simp add: settled_def initial_state_def)

lemma settled_enterPanorama: "settled s \<Longrightarrow> settled (enterPanorama n s)"
  by (simp add: settled_def enterPanorama_def loadPanoTexture_def split: option.splits)

lemma settled_navigatePano: "settled s \<Longrightarrow> settled (navigatePano p s)"
  by (simp add: settled_def navigatePano_def loadPanoTexture_def)

lemma settled_exitPanorama: "settled s \<Longrightarrow> settled (exitPanorama upd s)"
  by (simp add: settled_def exitPanorama_def removePanoArrows_def controls_update_def Let_def
      split: option.splits prod.splits)

lemma settled_onPointerClick: "settled s \<Longrightarrow> settled (onPointerClick hit s)"
  by (simp add: onPointerClick_def settled_enterPanorama settled_navigatePano split: option.splits)

lemma settled_onPanoPointerMove: "settled s \<Longrightarrow> settled (onPanoPointerMove e s)"
  by (simp add: settled_def onPanoPointerMove_def Let_def)

lemma settled_onGlobalPointerDown: "settled s \<Longrightarrow> settled (onGlobalPointerDown now e s)"
  by (simp add: settled_def onGlobalPointerDown_def onPanoPointerDown_def)

lemma settled_onGlobalPointerUp: "settled s \<Longrightarrow> settled (onGlobalPointerUp hit now e s)"
proof -
  assume s: "settled s"
  then have "settled (onPanoPointerUp s)" by (simp add: settled_def onPanoPointerUp_def)
  then show ?thesis
    by (simp add: onGlobalPointerUp_def Let_def settled_onPointerClick)
qed

lemma settled_onPanoWheel: "settled s \<Longrightarrow> settled (onPanoWheel e s)"
  by (simp add: settled_def onPanoWheel_def Let_def)

lemma settled_touchstart: "settled s \<Longrightarrow> settled (touchstart now e s)"
  by (auto simp: touchstart_def settled_onGlobalPointerDown split: list.splits)
    (simp_all add: settled_def)

lemma settled_touchmove: "settled s \<Longrightarrow> settled (touchmove e s)"
  by (auto simp: touchmove_def onGlobalPointerMove_def settled_onPanoPointerMove Let_def
      split: list.splits)
    (simp_all add: settled_def)

lemma settled_touchend: "settled s \<Longrightarrow> settled (touchend hit now e s)"
proof -
  assume "settled s"
  then have "settled (s\<lparr>panoPinchDist := 0\<rparr>)" by (simp add: settled_def)
  then show ?thesis by (simp add: touchend_def settled_onGlobalPointerUp)
qed

lemma settled_dispatch: "settled s \<Longrightarrow> settled (dispatch upd s a)"
proof (cases a)
  case (ManifestLoaded res)
  assume "settled s"
  then show ?thesis using ManifestLoaded
    by (simp add: settled_def loadManifest_def split: manifest_response.splits)
next
  case (HotspotsLoaded json stored)
  assume "settled s"
  then show ?thesis using HotspotsLoaded
    by (simp add: settled_def loadHotspotPositions_def split: option.splits)
next
  case ModelLoaded
  assume "settled s"
  then show ?thesis using ModelLoaded by (simp add: settled_def createHotspotMeshes_def)
next
  case TextureLoaded
  assume "settled s"
  then show ?thesis using TextureLoaded
    by (simp add: settled_def createPanoArrows_def removePanoArrows_def Let_def
        split: option.splits)
next
  case (KeyDown key)
  assume "settled s"
  then show ?thesis using KeyDown by (simp add: onKeyDown_def settled_exitPanorama)
qed (simp_all add: settled_onGlobalPointerDown settled_onGlobalPointerUp settled_onPanoWheel
    settled_touchstart settled_touchmove settled_touchend settled_exitPanorama
    settled_onPanoPointerMove onGlobalPointerMove_def)

lemma settled_foldl: "settled s \<Longrightarrow> settled (foldl (dispatch upd) s acts)"
  by (induction acts arbitrary: s) (simp_all add: settled_dispatch)

lemma settled_run: "settled (run upd acts)"
  unfolding run_def using settled_initial by (rule settled_foldl)

lemma zoom_as_dispatch:
  "zoom s z = dispatch upd s (case z of Wheel d \<Rightarrow> WheelTurned (zoom_event z)
                                | Pinch t0 t1 \<Rightarrow> TouchMove (zoom_event z))"
  by (cases z) (simp_all add: zoom_def)

lemma panorama_has_snapshot:
  assumes "currentMode (run upd acts) = Panorama"
  shows "\<exists>pos tgt. savedCameraPos (run upd acts) = Some pos
                 \<and> savedControlsTarget (run upd acts) = Some tgt"
  using settled_run [of upd acts] assms by (auto simp: settled_def)

lemma zoom_keeps_range:
  assumes "30 \<le> panoFov s" "panoFov s \<le> 100"
  shows "30 \<le> panoFov (zoom s z) \<and> panoFov (zoom s z) \<le> 100"
proof (cases z)
  case (Wheel d)
  with assms show ?thesis by (simp add: zoom_def onPanoWheel_def Let_def)
next
  case (Pinch t0 t1)
  with assms show ?thesis
    by (simp add: zoom_def zoom_event_def touchmove_def onGlobalPointerMove_def
        onPanoPointerMove_def Let_def)
qed

lemma zooms_keep_range:
  "30 \<le> panoFov s \<Longrightarrow> panoFov s \<le> 100 \<Longrightarrow>
   30 \<le> panoFov (foldl zoom s zs) \<and> panoFov (foldl zoom s zs) \<le> 100"
proof (induction zs arbitrary: s)
  case Nil
  then show ?case by simp
next
  case (Cons z zs)
  from zoom_keeps_range [OF Cons.prems] Cons.IH [of "zoom s z"] show ?case by simp
qed

lemma zoom_mode: "currentMode (zoom s z) = currentMode s"
  by (cases z)
    (simp_all add: zoom_def zoom_event_def onPanoWheel_def touchmove_def onGlobalPointerMove_def
      onPanoPointerMove_def Let_def)

text \<open>
  Claim C7. After any finite sequence of wheel and pinch zoom inputs, of any magnitudes and
  signs, the field-of-view accumulator \<open>panoFov\<close> lies in \<open>[30, 100]\<close>: it does after
  every run of the tour, whatever the events and their order, and after every sequence of
  zoom inputs from a state in which it lies there, as in the state every successful
  \<open>enterPanorama\<close> leaves (which sets it to 60). In panorama mode a wheel input adds 0.05 times its delta and a
  pinch input 0.15 times the change of the finger distance, both to the same accumulator,
  clamped to \<open>[30, 100]\<close> and copied to the camera; in dollhouse mode neither changes it.
\<close>

theorem fov_stays_clamped:
  "30 \<le> panoFov (run upd acts) \<and> panoFov (run upd acts) \<le> 100
   \<and> (30 \<le> panoFov s \<and> panoFov s \<le> 100 \<longrightarrow>
      30 \<le> panoFov (foldl zoom s zs) \<and> panoFov (foldl zoom s zs) \<le> 100)
   \<and> (getPanoByNumber (panoGraph s) n \<noteq> None \<longrightarrow>
      30 \<le> panoFov (foldl zoom (enterPanorama n s) zs)
      \<and> panoFov (foldl zoom (enterPanorama n s) zs) \<le> 100)
   \<and> (currentMode s = Panorama \<longrightarrow>
      panoFov (zoom s (Wheel d)) = max 30 (min 100 (panoFov s + d * 0.05))
      \<and> camera_fov (zoom s (Wheel d)) = panoFov (zoom s (Wheel d))
      \<and> panoFov (zoom s (Pinch t0 t1))
          = max 30 (min 100 (panoFov s + (panoPinchDist s - getTouchDist t0 t1) * 0.15))
      \<and> camera_fov (zoom s (Pinch t0 t1)) = panoFov (zoom s (Pinch t0 t1))
      \<and> panoPinchDist (zoom s (Pinch t0 t1)) = getTouchDist t0 t1)
   \<and> (currentMode s = Dollhouse \<longrightarrow> panoFov (zoom s z) = panoFov s)"
proof -
  have 1: "30 \<le> panoFov s \<and> panoFov s \<le> 100 \<longrightarrow>
      30 \<le> panoFov (foldl zoom s zs) \<and> panoFov (foldl zoom s zs) \<le> 100"
    using zooms_keep_range by blast
  have "getPanoByNumber (panoGraph s) n \<noteq> None \<longrightarrow> panoFov (enterPanorama n s) = 60"
    by (auto simp: enterPanorama_def loadPanoTexture_def)
  then have 2: "getPanoByNumber (panoGraph s) n \<noteq> None \<longrightarrow>
      30 \<le> panoFov (foldl zoom (enterPanorama n s) zs)
      \<and> panoFov (foldl zoom (enterPanorama n s) zs) \<le> 100"
    using zooms_keep_range [of "enterPanorama n s" zs] by simp
  have 3: "currentMode s = Panorama \<longrightarrow>
      panoFov (zoom s (Wheel d)) = max 30 (min 100 (panoFov s + d * 0.05))
      \<and> camera_fov (zoom s (Wheel d)) = panoFov (zoom s (Wheel d))
      \<and> panoFov (zoom s (Pinch t0 t1))
          = max 30 (min 100 (panoFov s + (panoPinchDist s - getTouchDist t0 t1) * 0.15))
      \<and> camera_fov (zoom s (Pinch t0 t1)) = panoFov (zoom s (Pinch t0 t1))
      \<and> panoPinchDist (zoom s (Pinch t0 t1)) = getTouchDist t0 t1"
    by (simp add: zoom_def zoom_event_def onPanoWheel_def touchmove_def Let_def)
  have 4: "currentMode s = Dollhouse \<longrightarrow> panoFov (zoom s z) = panoFov s"
    by (cases z)
      (simp_all add: zoom_def zoom_event_def onPanoWheel_def touchmove_def
        onGlobalPointerMove_def onPanoPointerMove_def)
  have 0: "30 \<le> panoFov (run upd acts) \<and> panoFov (run upd acts) \<le> 100"
    using settled_run [of upd acts] by (simp add: settled_def)
  from 0 1 2 3 4 show ?thesis by blast
qed

text \<open>Zooming far out, part of the way back, and through a mixed sequence.\<close>

theorem fov_stays_clamped_witness:
  "getPanoByNumber (panoGraph demo_state) 1 \<noteq> None
   \<and> panoFov (enterPanorama 1 demo_state) = 60
   \<and> panoFov (foldl zoom (enterPanorama 1 demo_state) [Wheel 100000]) = 100
   \<and> panoFov (foldl zoom (enterPanorama 1 demo_state) [Wheel 100000, Wheel (- 300)]) = 85
   \<and> 30 \<le> panoFov (foldl zoom (enterPanorama 1 demo_state)
              [Wheel 100000, Pinch (0, 0) (3, 4), Wheel (- 1000000), Pinch (5, 5) (900, 7)])
   \<and> panoFov (foldl zoom (enterPanorama 1 demo_state)
              [Wheel 100000, Pinch (0, 0) (3, 4), Wheel (- 1000000), Pinch (5, 5) (900, 7)]) \<le> 100"
proof -
  have n: "getPanoByNumber (panoGraph demo_state) 1 \<noteq> None" by (simp add: demo_state_node_1)
  have m: "currentMode (enterPanorama 1 demo_state) = Panorama"
    and f: "panoFov (enterPanorama 1 demo_state) = 60"
    by (simp_all add: enterPanorama_def demo_state_node_1 loadPanoTexture_def)
  have a: "panoFov (zoom (enterPanorama 1 demo_state) (Wheel 100000)) = 100"
    using fov_stays_clamped [where s = "enterPanorama 1 demo_state" and d = 100000] m f by simp
  have m2: "currentMode (zoom (enterPanorama 1 demo_state) (Wheel 100000)) = Panorama"
    by (simp add: zoom_mode m)
  have b: "panoFov (zoom (zoom (enterPanorama 1 demo_state) (Wheel 100000)) (Wheel (- 300))) = 85"
    using fov_stays_clamped [where s = "zoom (enterPanorama 1 demo_state) (Wheel 100000)" and d = "- 300"]
      m2 a by simp
  from fov_stays_clamped [where s = demo_state and n = 1 and zs =
      "[Wheel 100000, Pinch (0, 0) (3, 4), Wheel (- 1000000), Pinch (5, 5) (900, 7)]"] n
  have "30 \<le> panoFov (foldl zoom (enterPanorama 1 demo_state)
              [Wheel 100000, Pinch (0, 0) (3, 4), Wheel (- 1000000), Pinch (5, 5) (900, 7)])
   \<and> panoFov (foldl zoom (enterPanorama 1 demo_state)
              [Wheel 100000, Pinch (0, 0) (3, 4), Wheel (- 1000000), Pinch (5, 5) (900, 7)]) \<le> 100"
    by blast
  with n f a b show ?thesis by simp
qed



section \<open>Claims about entering a panorama\<close>

lemma getPanoByNumber_index: "getPanoByNumber g k = Some p \<Longrightarrow> index p = k \<and> p \<in> set g"
  by (auto simp: getPanoByNumber_def find_Some_iff)

lemma getPanoByNumber_None: "getPanoByNumber g k = None \<longleftrightarrow> k \<notin> index ` set g"
  by (auto simp: getPanoByNumber_def find_None_iff)

text \<open>
  Claim C1, as the code has it. For every index \<open>i\<close>, if the graph contains no node with
  index \<open>i\<close> then \<open>enterPanorama(i)\<close> changes nothing at all. The function never reads the
  hotspot positions: its effect is the same whatever they are. The positions are checked
  where the hotspot markers are made: every marker, the only source of the click handler's
  calls of \<open>enterPanorama\<close>, carries the index of a node that has a position.
\<close>

theorem enterPanorama_unknown_index_is_noop:
  "(getPanoByNumber (panoGraph s) i = None \<longrightarrow> enterPanorama i s = s)
   \<and> enterPanorama i (s\<lparr>hotspotPositions := h\<rparr>) = (enterPanorama i s)\<lparr>hotspotPositions := h\<rparr>
   \<and> (\<forall>k \<in> set (hotspotMeshes (createHotspotMeshes s)).
        hotspotPositions s k \<noteq> None \<and> getPanoByNumber (panoGraph s) k \<noteq> None)"
proof -
  have 1: "getPanoByNumber (panoGraph s) i = None \<longrightarrow> enterPanorama i s = s"
    by (simp add: enterPanorama_def)
  have 2: "enterPanorama i (s\<lparr>hotspotPositions := h\<rparr>) = (enterPanorama i s)\<lparr>hotspotPositions := h\<rparr>"
    by (simp add: enterPanorama_def loadPanoTexture_def split: option.splits)
  have 3: "\<forall>k \<in> set (hotspotMeshes (createHotspotMeshes s)).
        hotspotPositions s k \<noteq> None \<and> getPanoByNumber (panoGraph s) k \<noteq> None"
    by (auto simp: createHotspotMeshes_def getPanoByNumber_None)
  from 1 2 3 show ?thesis by blast
qed

text \<open>Index 7 is not in the three-room tour; rooms 1 and 3 get markers.\<close>

theorem enterPanorama_unknown_index_is_noop_witness:
  "getPanoByNumber (panoGraph demo_state) 7 = None \<and> enterPanorama 7 demo_state = demo_state
   \<and> hotspotMeshes (createHotspotMeshes demo_state) = [1, 3]"
proof -
  have n: "getPanoByNumber (panoGraph demo_state) 7 = None"
    by (simp add: demo_state_eq demo_graph getPanoByNumber_def)
  have "hotspotMeshes (createHotspotMeshes demo_state) = [1, 3]"
    by (simp add: createHotspotMeshes_def demo_state_eq demo_graph DEFAULT_HOTSPOTS_def)
  with n enterPanorama_unknown_index_is_noop [of demo_state 7] show ?thesis by simp
qed

text \<open>
  Room 10 is in the graph and has no hotspot position: \<open>enterPanorama(10)\<close> is not a no-op,
  it changes the mode, the active node and the snapshot.
\<close>

theorem enterPanorama_without_hotspot_counterexample:
  "getPanoByNumber (panoGraph demo_state) 10 \<noteq> None
   \<and> hotspotPositions demo_state 10 = None
   \<and> currentMode demo_state = Dollhouse
   \<and> currentMode (enterPanorama 10 demo_state) = Panorama
   \<and> currentPanoIndex demo_state = - 1
   \<and> currentPanoIndex (enterPanorama 10 demo_state) = 2
   \<and> savedCameraPos demo_state = None
   \<and> savedCameraPos (enterPanorama 10 demo_state) = Some (Vec3 10 8 10)"
  by (simp add: enterPanorama_def demo_state_eq demo_graph getPanoByNumber_def
      initial_state_def loadPanoTexture_def DEFAULT_HOTSPOTS_def)

lemma click_in_panorama:
  assumes "currentMode s = Panorama"
  shows "currentMode (onPointerClick hit s) = Panorama
       \<and> savedCameraPos (onPointerClick hit s) = savedCameraPos s
       \<and> savedControlsTarget (onPointerClick hit s) = savedControlsTarget s
       \<and> savedCameraFov (onPointerClick hit s) = savedCameraFov s
       \<and> savedCameraNear (onPointerClick hit s) = savedCameraNear s
       \<and> savedCameraFar (onPointerClick hit s) = savedCameraFar s"
  using assms
  by (simp add: onPointerClick_def navigatePano_def loadPanoTexture_def split: option.splits)

lemma click_in_panorama_cases:
  assumes "currentMode s = Panorama"
  shows "onPointerClick hit s =
     (case hit of
        None \<Rightarrow> s
      | Some j \<Rightarrow>
          if j < length (panoArrows s) then navigatePano (onClick_target (panoArrows s ! j)) s
          else s)"
  using assms by (simp add: onPointerClick_def)

text \<open>
  Claim C2, as the code has it. \<open>enterPanorama\<close> does not look at the mode; the guard is in
  the click handler, its only caller, which in panorama mode tests the floor markers only and
  never calls \<open>enterPanorama\<close>: a click in panorama mode leaves the mode and the camera
  snapshot as they are. So of two clicks in immediate succession, the first on a hotspot
  marker in dollhouse mode, the first enters the panorama (one change of the active node, one
  image request), and after the second the mode is still panorama and the snapshot still
  holds the dollhouse camera state from before the entry. The second click changes the active
  node only when it lands on a floor marker, and then by navigating to that marker's node;
  when it meets no floor marker, as when none are present, it changes nothing.
\<close>

theorem panorama_click_never_reenters:
  "(currentMode t = Panorama \<longrightarrow>
        currentMode (onPointerClick hit t) = Panorama
      \<and> savedCameraPos (onPointerClick hit t) = savedCameraPos t
      \<and> savedControlsTarget (onPointerClick hit t) = savedControlsTarget t
      \<and> savedCameraFov (onPointerClick hit t) = savedCameraFov t
      \<and> savedCameraNear (onPointerClick hit t) = savedCameraNear t
      \<and> savedCameraFar (onPointerClick hit t) = savedCameraFar t)
   \<and> (currentMode s = Dollhouse
        \<and> k < length (hotspotMeshes s) \<and> hotspotMeshes s ! k \<noteq> 0
        \<and> getPanoByNumber (panoGraph s) (hotspotMeshes s ! k) = Some p \<longrightarrow>
        (let s1 = onPointerClick (Some k) s; s2 = onPointerClick hit s1 in
           s1 = enterPanorama (hotspotMeshes s ! k) s
         \<and> currentMode s1 = Panorama
         \<and> currentPanoIndex s1 = int (arrayIdx p)
         \<and> texture_requests s1 = texture_requests s @ [''../360_casa/'' @ file_name p]
         \<and> currentMode s2 = Panorama
         \<and> savedCameraPos s2 = Some (camera_position s)
         \<and> savedControlsTarget s2 = Some (controls_target s)
         \<and> savedCameraFov s2 = camera_fov s
         \<and> savedCameraNear s2 = camera_near s
         \<and> savedCameraFar s2 = camera_far s
         \<and> s2 = (case hit of
                   None \<Rightarrow> s1
                 | Some j \<Rightarrow>
                     if j < length (panoArrows s)
                     then navigatePano (onClick_target (panoArrows s ! j)) s1
                     else s1)
         \<and> (hit = None \<or> panoArrows s = [] \<longrightarrow> s2 = s1)))"
proof (intro conjI impI)
  assume "currentMode t = Panorama"
  from click_in_panorama [OF this, of hit]
  show "currentMode (onPointerClick hit t) = Panorama"
    and "savedCameraPos (onPointerClick hit t) = savedCameraPos t"
    and "savedControlsTarget (onPointerClick hit t) = savedControlsTarget t"
    and "savedCameraFov (onPointerClick hit t) = savedCameraFov t"
    and "savedCameraNear (onPointerClick hit t) = savedCameraNear t"
    and "savedCameraFar (onPointerClick hit t) = savedCameraFar t"
    by blast+
next
  assume pre: "currentMode s = Dollhouse
        \<and> k < length (hotspotMeshes s) \<and> hotspotMeshes s ! k \<noteq> 0
        \<and> getPanoByNumber (panoGraph s) (hotspotMeshes s ! k) = Some p"
  let ?s1 = "onPointerClick (Some k) s"
  let ?s2 = "onPointerClick hit ?s1"
  have s1: "?s1 = enterPanorama (hotspotMeshes s ! k) s"
    using pre by (simp add: onPointerClick_def)
  have m: "currentMode ?s1 = Panorama" and a: "panoArrows ?s1 = panoArrows s"
    and i: "currentPanoIndex ?s1 = int (arrayIdx p)"
    and r: "texture_requests ?s1 = texture_requests s @ [''../360_casa/'' @ file_name p]"
    and v: "savedCameraPos ?s1 = Some (camera_position s)"
      "savedControlsTarget ?s1 = Some (controls_target s)"
      "savedCameraFov ?s1 = camera_fov s" "savedCameraNear ?s1 = camera_near s"
      "savedCameraFar ?s1 = camera_far s"
    using pre by (simp_all add: s1 enterPanorama_def loadPanoTexture_def)
  note keep = click_in_panorama [OF m, of hit]
  have c: "?s2 = (case hit of
                   None \<Rightarrow> ?s1
                 | Some j \<Rightarrow>
                     if j < length (panoArrows s)
                     then navigatePano (onClick_target (panoArrows s ! j)) ?s1
                     else ?s1)"
    using click_in_panorama_cases [OF m, of hit] by (simp only: a)
  have e: "hit = None \<or> panoArrows s = [] \<longrightarrow> ?s2 = ?s1"
    by (subst c) (auto split: option.splits)
  show "let s1 = onPointerClick (Some k) s; s2 = onPointerClick hit s1 in
           s1 = enterPanorama (hotspotMeshes s ! k) s
         \<and> currentMode s1 = Panorama
         \<and> currentPanoIndex s1 = int (arrayIdx p)
         \<and> texture_requests s1 = texture_requests s @ [''../360_casa/'' @ file_name p]
         \<and> currentMode s2 = Panorama
         \<and> savedCameraPos s2 = Some (camera_position s)
         \<and> savedControlsTarget s2 = Some (controls_target s)
         \<and> savedCameraFov s2 = camera_fov s
         \<and> savedCameraNear s2 = camera_near s
         \<and> savedCameraFar s2 = camera_far s
         \<and> s2 = (case hit of
                   None \<Rightarrow> s1
                 | Some j \<Rightarrow>
                     if j < length (panoArrows s)
                     then navigatePano (onClick_target (panoArrows s ! j)) s1
                     else s1)
         \<and> (hit = None \<or> panoArrows s = [] \<longrightarrow> s2 = s1)"
    unfolding Let_def
    apply (intro conjI)
    subgoal by (rule s1)
    subgoal by (rule m)
    subgoal by (rule i)
    subgoal by (rule r)
    subgoal using keep by blast
    subgoal using keep v by simp
    subgoal using keep v by simp
    subgoal using keep v by simp
    subgoal using keep v by simp
    subgoal using keep v by simp
    subgoal by (rule c)
    subgoal by (rule e)
    done
qed

text \<open>Two clicks on the three-room tour, on the markers of room 1 and of room 3.\<close>

theorem panorama_click_never_reenters_witness:
  "currentMode demo_state = Dollhouse \<and> panoArrows demo_state = []
   \<and> hotspotMeshes demo_state = [1, 3]
   \<and> currentPanoIndex (onPointerClick (Some 1) (onPointerClick (Some 0) demo_state)) = 0
   \<and> savedCameraPos (onPointerClick (Some 1) (onPointerClick (Some 0) demo_state))
        = Some (Vec3 10 8 10)
   \<and> texture_requests (onPointerClick (Some 1) (onPointerClick (Some 0) demo_state))
        = [''../360_casa/room-1.jpg'']"
proof -
  let ?p = "\<lparr>index = 1, file_name = ''room-1.jpg'', arrayIdx = 0, prev = Some 2, nxt = Some 1\<rparr>"
  have h: "currentMode demo_state = Dollhouse" "panoArrows demo_state = []"
    "hotspotMeshes demo_state = [1, 3]" "camera_position demo_state = Vec3 10 8 10"
    "texture_requests demo_state = []"
    by (simp_all add: demo_state_eq initial_state_def)
  have k: "0 < length (hotspotMeshes demo_state)" "hotspotMeshes demo_state ! 0 \<noteq> 0"
    by (simp_all add: h)
  have n: "getPanoByNumber (panoGraph demo_state) (hotspotMeshes demo_state ! 0) = Some ?p"
    by (simp add: h demo_state_node_1)
  let ?s1 = "onPointerClick (Some 0) demo_state"
  let ?s2 = "onPointerClick (Some 1) ?s1"
  note r = panorama_click_never_reenters [where s = demo_state and k = 0 and p = ?p
      and hit = "Some 1", THEN conjunct2, unfolded Let_def]
  from r h(1) h(2) k n have same: "?s2 = ?s1" by blast
  from r h(1) k n have "currentPanoIndex ?s1 = int (arrayIdx ?p)" by blast
  then have "currentPanoIndex ?s1 = 0" by simp
  then have a: "currentPanoIndex ?s2 = 0" by (simp only: same)
  from r h(1) k n have "savedCameraPos ?s2 = Some (camera_position demo_state)" by blast
  then have b: "savedCameraPos ?s2 = Some (Vec3 10 8 10)" by (simp only: h)
  from r h(1) k n have "texture_requests ?s1 = texture_requests demo_state @
      [''../360_casa/'' @ file_name ?p]"
    by blast
  then have "texture_requests ?s1 = [''../360_casa/room-1.jpg'']" by (simp add: h)
  then have c: "texture_requests ?s2 = [''../360_casa/room-1.jpg'']" by (simp only: same)
  from a b c h show ?thesis by blast
qed

text \<open>
  Two direct calls: the second \<open>enterPanorama\<close>, in panorama mode, changes the active node
  again and overwrites the snapshot with the panorama camera (at the origin, far plane 1100).
  And two clicks where floor markers are present: in the state a late image leaves, a click
  on the marker of room 3 enters it and a second click, on the floor marker towards room 5,
  changes the active node a second time and requests a second image.
\<close>

theorem enterPanorama_twice_counterexample:
  "currentMode (enterPanorama 1 demo_state) = Panorama
   \<and> currentPanoIndex (enterPanorama 1 demo_state) = 0
   \<and> currentPanoIndex (enterPanorama 3 (enterPanorama 1 demo_state)) = 1
   \<and> camera_position demo_state = Vec3 10 8 10
   \<and> savedCameraPos (enterPanorama 1 demo_state) = Some (Vec3 10 8 10)
   \<and> savedCameraPos (enterPanorama 3 (enterPanorama 1 demo_state)) = Some (Vec3 0 0 0)
   \<and> camera_far demo_state = 1000
   \<and> savedCameraFar (enterPanorama 3 (enterPanorama 1 demo_state)) = 1100
   \<and> currentMode late_image_state = Dollhouse
   \<and> map (\<lambda>m. index (onClick_target m)) (panoArrows late_image_state) = [3, 5]
   \<and> currentPanoIndex late_image_state = 1
   \<and> currentPanoIndex (onPointerClick (Some 0) late_image_state) = 0
   \<and> currentPanoIndex (onPointerClick (Some 1) (onPointerClick (Some 0) late_image_state)) = 2
   \<and> texture_requests late_image_state = [''../360_casa/pano_4.jpg'']
   \<and> texture_requests (onPointerClick (Some 1) (onPointerClick (Some 0) late_image_state))
        = [''../360_casa/pano_4.jpg'', ''../360_casa/pano_3.jpg'', ''../360_casa/pano_5.jpg'']"
proof -
  have a: "currentMode (enterPanorama 1 demo_state) = Panorama
   \<and> currentPanoIndex (enterPanorama 1 demo_state) = 0
   \<and> currentPanoIndex (enterPanorama 3 (enterPanorama 1 demo_state)) = 1
   \<and> camera_position demo_state = Vec3 10 8 10
   \<and> savedCameraPos (enterPanorama 1 demo_state) = Some (Vec3 10 8 10)
   \<and> savedCameraPos (enterPanorama 3 (enterPanorama 1 demo_state)) = Some (Vec3 0 0 0)
   \<and> camera_far demo_state = 1000
   \<and> savedCameraFar (enterPanorama 3 (enterPanorama 1 demo_state)) = 1100"
    by (simp add: demo_enter_1)
      (simp add: enterPanorama_def demo_state_eq demo_graph getPanoByNumber_def
        initial_state_def loadPanoTexture_def)
  have b: "currentMode late_image_state = Dollhouse
   \<and> map (\<lambda>m. index (onClick_target m)) (panoArrows late_image_state) = [3, 5]
   \<and> currentPanoIndex late_image_state = 1
   \<and> texture_requests late_image_state = [''../360_casa/pano_4.jpg'']"
    by (simp add: late_image_state_eq initial_state_def createFloorCircle_def Let_def)
  have c: "currentPanoIndex (onPointerClick (Some 0) late_image_state) = 0
   \<and> currentPanoIndex (onPointerClick (Some 1) (onPointerClick (Some 0) late_image_state)) = 2
   \<and> texture_requests (onPointerClick (Some 1) (onPointerClick (Some 0) late_image_state))
        = [''../360_casa/pano_4.jpg'', ''../360_casa/pano_3.jpg'', ''../360_casa/pano_5.jpg'']"
    by (simp add: late_image_state_eq initial_state_def onPointerClick_def enterPanorama_def
        getPanoByNumber_def bearing_graph loadPanoTexture_def navigatePano_def
        createFloorCircle_def Let_def)
  from a b c show ?thesis by blast
qed

section \<open>Claims about leaving a panorama\<close>

text \<open>
  Claim C3, as the code has it. For every starting camera state, \<open>enterPanorama\<close> on a valid
  node saves the camera position and the look target, and \<open>exitPanorama\<close>, called
  immediately after, restores the field of view and the near and far clip planes to exactly
  their values before the entry, copies the saved position and look target back, and then
  calls the update of the orbit control. The position and look target it leaves are what
  that update makes of the pose from before the entry: they are exactly the values from
  before the entry if and only if the update leaves that pose in place.
\<close>

theorem enter_then_exit_restores_camera:
  "getPanoByNumber (panoGraph s) n = Some p \<longrightarrow>
     (let r = exitPanorama upd (enterPanorama n s) in
        savedCameraPos (enterPanorama n s) = Some (camera_position s)
      \<and> savedControlsTarget (enterPanorama n s) = Some (controls_target s)
      \<and> (camera_position r, controls_target r) = upd (camera_position s, controls_target s)
      \<and> camera_fov r = camera_fov s
      \<and> camera_near r = camera_near s
      \<and> camera_far r = camera_far s
      \<and> ((camera_position r = camera_position s \<and> controls_target r = controls_target s)
           = (upd (camera_position s, controls_target s) = (camera_position s, controls_target s))))"
proof
  assume n: "getPanoByNumber (panoGraph s) n = Some p"
  let ?r = "exitPanorama upd (enterPanorama n s)"
  have pose: "(camera_position ?r, controls_target ?r) = upd (camera_position s, controls_target s)"
    using n
    by (simp add: enterPanorama_def exitPanorama_def loadPanoTexture_def removePanoArrows_def
        controls_update_def Let_def split: prod.splits)
  have rest: "savedCameraPos (enterPanorama n s) = Some (camera_position s)"
    "savedControlsTarget (enterPanorama n s) = Some (controls_target s)"
    "camera_fov ?r = camera_fov s" "camera_near ?r = camera_near s" "camera_far ?r = camera_far s"
    using n
    by (simp_all add: enterPanorama_def exitPanorama_def loadPanoTexture_def removePanoArrows_def
        controls_update_def Let_def split: prod.splits)
  have iff: "(camera_position ?r = camera_position s \<and> controls_target ?r = controls_target s)
           = (upd (camera_position s, controls_target s) = (camera_position s, controls_target s))"
    using pose by (metis prod.inject)
  show "let r = exitPanorama upd (enterPanorama n s) in
        savedCameraPos (enterPanorama n s) = Some (camera_position s)
      \<and> savedControlsTarget (enterPanorama n s) = Some (controls_target s)
      \<and> (camera_position r, controls_target r) = upd (camera_position s, controls_target s)
      \<and> camera_fov r = camera_fov s
      \<and> camera_near r = camera_near s
      \<and> camera_far r = camera_far s
      \<and> ((camera_position r = camera_position s \<and> controls_target r = controls_target s)
           = (upd (camera_position s, controls_target s) = (camera_position s, controls_target s)))"
    unfolding Let_def using pose rest iff by blast
qed

text \<open>Entering room 1 of the three-room tour and leaving again, the orbit control at rest.\<close>

theorem enter_then_exit_restores_camera_witness:
  "getPanoByNumber (panoGraph demo_state) 1 \<noteq> None
   \<and> camera_position (enterPanorama 1 demo_state) = Vec3 0 0 0
   \<and> camera_far (enterPanorama 1 demo_state) = 1100
   \<and> camera_position (exitPanorama orbit_at_rest (enterPanorama 1 demo_state)) = Vec3 10 8 10
   \<and> controls_target (exitPanorama orbit_at_rest (enterPanorama 1 demo_state)) = Vec3 0 0 0
   \<and> camera_fov (exitPanorama orbit_at_rest (enterPanorama 1 demo_state)) = 60
   \<and> camera_near (exitPanorama orbit_at_rest (enterPanorama 1 demo_state)) = 0.1
   \<and> camera_far (exitPanorama orbit_at_rest (enterPanorama 1 demo_state)) = 1000"
proof -
  let ?r = "exitPanorama orbit_at_rest (enterPanorama 1 demo_state)"
  have h: "camera_position demo_state = Vec3 10 8 10" "controls_target demo_state = Vec3 0 0 0"
    "camera_fov demo_state = 60" "camera_near demo_state = 0.1" "camera_far demo_state = 1000"
    by (simp_all add: demo_state_eq initial_state_def)
  have e: "camera_position (enterPanorama 1 demo_state) = Vec3 0 0 0"
    "camera_far (enterPanorama 1 demo_state) = 1100"
    by (simp_all add: demo_enter_1)
  note t = enter_then_exit_restores_camera [where s = demo_state and n = 1
      and upd = orbit_at_rest, unfolded Let_def h]
  from t demo_state_node_1
  have "(camera_position ?r, controls_target ?r) = orbit_at_rest (Vec3 10 8 10, Vec3 0 0 0)"
    and f: "camera_fov ?r = 60" "camera_near ?r = 0.1" "camera_far ?r = 1000"
    by blast+
  then have "camera_position ?r = Vec3 10 8 10" "controls_target ?r = Vec3 0 0 0"
    by (simp_all add: orbit_at_rest_def)
  with f e show ?thesis by (simp add: demo_state_node_1)
qed

text \<open>
  The same with a pan still decaying when the panorama was entered: the update that
  \<open>exitPanorama\<close> calls takes the pending step, and the camera and the look target end one
  unit away from where they were before the entry.
\<close>

theorem enter_then_exit_pending_pan_counterexample:
  "getPanoByNumber (panoGraph demo_state) 1 \<noteq> None
   \<and> camera_position demo_state = Vec3 10 8 10
   \<and> controls_target demo_state = Vec3 0 0 0
   \<and> camera_position
        (exitPanorama (orbit_pan_step (Vec3 1 0 0)) (enterPanorama 1 demo_state)) = Vec3 11 8 10
   \<and> controls_target
        (exitPanorama (orbit_pan_step (Vec3 1 0 0)) (enterPanorama 1 demo_state)) = Vec3 1 0 0"
  by (simp add: demo_state_node_1 demo_enter_1 exitPanorama_def removePanoArrows_def
      controls_update_def Let_def orbit_pan_step_def vec3_add_def)
    (simp add: demo_state_eq initial_state_def)

text \<open>
  Claim C4, as the code has it. \<open>exitPanorama\<close>, called from panorama mode (where every
  run holds a snapshot, taken by \<open>enterPanorama\<close>), sets the mode to dollhouse, restores the
  field of view and the near and far clip planes from the snapshot exactly, copies the saved
  camera position and look target back and then calls the update of the orbit control, so
  that the position and look target it leaves are what that update makes of the saved pose
  (the saved values exactly if and only if the update leaves that pose in place). It enables
  the orbit control and removes the floor markers. It does not touch \<open>currentPanoIndex\<close>:
  the index of the node that was shown stays recorded.
\<close>

theorem exitPanorama_restores_snapshot:
  "(currentMode s = Panorama \<and> savedCameraPos s = Some pos \<and> savedControlsTarget s = Some tgt \<longrightarrow>
      (let r = exitPanorama upd s in
         currentMode r = Dollhouse
       \<and> (camera_position r, controls_target r) = upd (pos, tgt)
       \<and> ((camera_position r = pos \<and> controls_target r = tgt) = (upd (pos, tgt) = (pos, tgt)))
       \<and> camera_fov r = savedCameraFov s
       \<and> camera_near r = savedCameraNear s
       \<and> camera_far r = savedCameraFar s
       \<and> controls_enabled r
       \<and> panoArrows r = []
       \<and> currentPanoIndex r = currentPanoIndex s
       \<and> pano_at (panoGraph r) (currentPanoIndex r) = pano_at (panoGraph s) (currentPanoIndex s)))
   \<and> (currentMode (run u acts) = Panorama \<longrightarrow>
        (\<exists>pos tgt. savedCameraPos (run u acts) = Some pos
                 \<and> savedControlsTarget (run u acts) = Some tgt))"
proof (intro conjI impI)
  assume pre: "currentMode s = Panorama \<and> savedCameraPos s = Some pos \<and> savedControlsTarget s = Some tgt"
  let ?r = "exitPanorama upd s"
  have pose: "(camera_position ?r, controls_target ?r) = upd (pos, tgt)"
    using pre
    by (simp add: exitPanorama_def removePanoArrows_def controls_update_def Let_def
        split: prod.splits)
  have iff: "(camera_position ?r = pos \<and> controls_target ?r = tgt) = (upd (pos, tgt) = (pos, tgt))"
    using pose by (metis prod.inject)
  have rest: "currentMode ?r = Dollhouse" "camera_fov ?r = savedCameraFov s"
    "camera_near ?r = savedCameraNear s" "camera_far ?r = savedCameraFar s"
    "controls_enabled ?r" "panoArrows ?r = []" "currentPanoIndex ?r = currentPanoIndex s"
    "pano_at (panoGraph ?r) (currentPanoIndex ?r) = pano_at (panoGraph s) (currentPanoIndex s)"
    using pre
    by (simp_all add: exitPanorama_def removePanoArrows_def controls_update_def Let_def
        split: prod.splits)
  show "let r = exitPanorama upd s in
         currentMode r = Dollhouse
       \<and> (camera_position r, controls_target r) = upd (pos, tgt)
       \<and> ((camera_position r = pos \<and> controls_target r = tgt) = (upd (pos, tgt) = (pos, tgt)))
       \<and> camera_fov r = savedCameraFov s
       \<and> camera_near r = savedCameraNear s
       \<and> camera_far r = savedCameraFar s
       \<and> controls_enabled r
       \<and> panoArrows r = []
       \<and> currentPanoIndex r = currentPanoIndex s
       \<and> pano_at (panoGraph r) (currentPanoIndex r) = pano_at (panoGraph s) (currentPanoIndex s)"
    unfolding Let_def using pose iff rest by blast
next
  assume "currentMode (run u acts) = Panorama"
  then show "\<exists>pos tgt. savedCameraPos (run u acts) = Some pos
                 \<and> savedControlsTarget (run u acts) = Some tgt"
    by (rule panorama_has_snapshot)
qed

text \<open>Leaving room 1 of the three-room tour, the orbit control at rest.\<close>

theorem exitPanorama_restores_snapshot_witness:
  "currentMode (enterPanorama 1 demo_state) = Panorama
   \<and> savedCameraPos (enterPanorama 1 demo_state) = Some (Vec3 10 8 10)
   \<and> savedControlsTarget (enterPanorama 1 demo_state) = Some (Vec3 0 0 0)
   \<and> currentMode (exitPanorama orbit_at_rest (enterPanorama 1 demo_state)) = Dollhouse
   \<and> camera_position (exitPanorama orbit_at_rest (enterPanorama 1 demo_state)) = Vec3 10 8 10
   \<and> controls_target (exitPanorama orbit_at_rest (enterPanorama 1 demo_state)) = Vec3 0 0 0
   \<and> camera_far (exitPanorama orbit_at_rest (enterPanorama 1 demo_state)) = 1000
   \<and> controls_enabled (exitPanorama orbit_at_rest (enterPanorama 1 demo_state))"
proof -
  let ?s = "enterPanorama 1 demo_state"
  let ?r = "exitPanorama orbit_at_rest ?s"
  have h: "currentMode ?s = Panorama" "savedCameraPos ?s = Some (Vec3 10 8 10)"
    "savedControlsTarget ?s = Some (Vec3 0 0 0)"
    by (simp_all add: demo_enter_1)
  have f: "savedCameraFar ?s = 1000" by (simp add: demo_enter_1)
  note t = exitPanorama_restores_snapshot [where s = ?s and pos = "Vec3 10 8 10"
      and tgt = "Vec3 0 0 0" and upd = orbit_at_rest, THEN conjunct1, unfolded Let_def f]
  from t h have "(camera_position ?r, controls_target ?r) = orbit_at_rest (Vec3 10 8 10, Vec3 0 0 0)"
    and g: "currentMode ?r = Dollhouse" "camera_far ?r = 1000" "controls_enabled ?r"
    by blast+
  then have "camera_position ?r = Vec3 10 8 10" "controls_target ?r = Vec3 0 0 0"
    by (simp_all add: orbit_at_rest_def)
  with g h show ?thesis by blast
qed

text \<open>
  After entering room 1 and leaving, \<open>currentPanoIndex\<close> is still 0, not the \<open>-1\<close> it
  starts with, and still resolves to the node of room 1. And with a pan still decaying, the
  camera and the look target end two units away from the saved pose.
\<close>

theorem exitPanorama_keeps_active_node_counterexample:
  "currentMode (enterPanorama 1 demo_state) = Panorama
   \<and> currentPanoIndex initial_state = - 1
   \<and> currentPanoIndex (enterPanorama 1 demo_state) = 0
   \<and> currentPanoIndex (exitPanorama orbit_at_rest (enterPanorama 1 demo_state)) = 0
   \<and> pano_at (panoGraph (exitPanorama orbit_at_rest (enterPanorama 1 demo_state)))
        (currentPanoIndex (exitPanorama orbit_at_rest (enterPanorama 1 demo_state)))
      = Some \<lparr>index = 1, file_name = ''room-1.jpg'', arrayIdx = 0, prev = Some 2, nxt = Some 1\<rparr>
   \<and> savedCameraPos (enterPanorama 1 demo_state) = Some (Vec3 10 8 10)
   \<and> savedControlsTarget (enterPanorama 1 demo_state) = Some (Vec3 0 0 0)
   \<and> camera_position
        (exitPanorama (orbit_pan_step (Vec3 0 0 2)) (enterPanorama 1 demo_state)) = Vec3 10 8 12
   \<and> controls_target
        (exitPanorama (orbit_pan_step (Vec3 0 0 2)) (enterPanorama 1 demo_state)) = Vec3 0 0 2"
  by (simp add: demo_enter_1 exitPanorama_def removePanoArrows_def controls_update_def
      pano_at_def Let_def orbit_at_rest_def orbit_pan_step_def vec3_add_def)
    (simp add: demo_state_eq demo_graph initial_state_def)

section \<open>Claims about the floor markers\<close>

lemma pano_arrow_Some:
  assumes "getPanoByNumber (panoGraph s) t = Some tp" "hotspotPositions s t = Some q"
  shows "pano_arrow s a p t =
     Some (createFloorCircle
        (radToDeg (atan2 (vz q - vz p) (vx q - vx p))
           - (case PANO_NORTH_OFFSET (index a) of None \<Rightarrow> 0 | Some v \<Rightarrow> v)) tp)"
  using assms by (simp add: pano_arrow_def Let_def)

lemma pano_arrow_None:
  "pano_arrow s a p t = None \<longleftrightarrow>
     getPanoByNumber (panoGraph s) t = None \<or> hotspotPositions s t = None"
  by (simp add: pano_arrow_def Let_def split: option.splits)

lemma createPanoArrows_arrows:
  assumes "pano_at (panoGraph s) (currentPanoIndex s) = Some a"
    and "hotspotPositions s (index a) = Some p"
  shows "panoArrows (createPanoArrows s) =
     List.map_filter (pano_arrow s a p)
       (case PANO_CONNECTIONS (index a) of None \<Rightarrow> [] | Some c \<Rightarrow> c)"
proof -
  have "pano_arrow (removePanoArrows s) a p = pano_arrow s a p"
    by (rule ext) (simp add: pano_arrow_def removePanoArrows_def split: option.splits)
  with assms show ?thesis
    by (simp add: createPanoArrows_def removePanoArrows_def Let_def)
qed

text \<open>
  Claim C8. For the active node at position \<open>p\<close> with orientation offset \<open>o\<close>, the floor
  markers are made for the connected neighbours that are in the graph and have a hotspot
  position, in the order of the connection table; the marker for a neighbour at \<open>q\<close> is
  placed at the image-relative yaw \<open>atan2(q.z - p.z, q.x - p.x)\<close> in degrees minus \<open>o\<close>,
  25 units from the viewer along that yaw. A neighbour without a known position gets no
  marker. With \<open>p = (0, 0, 0)\<close> and \<open>o = 0\<close>, a neighbour at \<open>(1, 0, 0)\<close> yields yaw 0
  and a neighbour at \<open>(0, 0, 1)\<close> yields yaw 90.
\<close>

theorem floor_marker_bearings:
  "(pano_at (panoGraph s) (currentPanoIndex s) = Some a \<and> hotspotPositions s (index a) = Some p \<longrightarrow>
     (let conns = (case PANO_CONNECTIONS (index a) of None \<Rightarrow> [] | Some c \<Rightarrow> c);
          off = (case PANO_NORTH_OFFSET (index a) of None \<Rightarrow> 0 | Some v \<Rightarrow> v);
          shown = filter (\<lambda>t. getPanoByNumber (panoGraph s) t \<noteq> None \<and> hotspotPositions s t \<noteq> None) conns;
          arrows = panoArrows (createPanoArrows s)
      in map (\<lambda>m. index (onClick_target m)) arrows = shown
       \<and> map yawDeg arrows =
           map (\<lambda>t. radToDeg (atan2 (vz (the (hotspotPositions s t)) - vz p)
                                     (vx (the (hotspotPositions s t)) - vx p)) - off) shown
       \<and> (\<forall>m \<in> set arrows.
             group_position m =
               Vec3 (25 * cos (degToRad (yawDeg m))) (- 12) (25 * sin (degToRad (yawDeg m))))
       \<and> (\<forall>t. hotspotPositions s t = None \<longrightarrow> t \<notin> set (map (\<lambda>m. index (onClick_target m)) arrows))))
   \<and> radToDeg (atan2 (0 - 0) (1 - 0)) - 0 = 0
   \<and> radToDeg (atan2 (1 - 0) (0 - 0)) - 0 = 90
   \<and> map yawDeg (panoArrows (createPanoArrows (bearing_state bearing_positions))) = [0, 90]
   \<and> map yawDeg (panoArrows (createPanoArrows (bearing_state bearing_positions_without_5))) = [0]"
proof -
  have general: "map (\<lambda>m. index (onClick_target m)) (panoArrows (createPanoArrows s))
        = filter (\<lambda>t. getPanoByNumber (panoGraph s) t \<noteq> None \<and> hotspotPositions s t \<noteq> None)
            (case PANO_CONNECTIONS (index a) of None \<Rightarrow> [] | Some c \<Rightarrow> c)
      \<and> map yawDeg (panoArrows (createPanoArrows s)) =
           map (\<lambda>t. radToDeg (atan2 (vz (the (hotspotPositions s t)) - vz p)
                                     (vx (the (hotspotPositions s t)) - vx p))
                  - (case PANO_NORTH_OFFSET (index a) of None \<Rightarrow> 0 | Some v \<Rightarrow> v))
             (filter (\<lambda>t. getPanoByNumber (panoGraph s) t \<noteq> None \<and> hotspotPositions s t \<noteq> None)
               (case PANO_CONNECTIONS (index a) of None \<Rightarrow> [] | Some c \<Rightarrow> c))
      \<and> (\<forall>m \<in> set (panoArrows (createPanoArrows s)).
             group_position m =
               Vec3 (25 * cos (degToRad (yawDeg m))) (- 12) (25 * sin (degToRad (yawDeg m))))"
    if a: "pano_at (panoGraph s) (currentPanoIndex s) = Some a"
      and p: "hotspotPositions s (index a) = Some p"
  proof -
    let ?conns = "case PANO_CONNECTIONS (index a) of None \<Rightarrow> [] | Some c \<Rightarrow> c"
    let ?ok = "\<lambda>t. getPanoByNumber (panoGraph s) t \<noteq> None \<and> hotspotPositions s t \<noteq> None"
    have arrows: "panoArrows (createPanoArrows s) =
        map (\<lambda>t. the (pano_arrow s a p t)) (filter ?ok ?conns)"
      by (simp add: createPanoArrows_arrows [OF a p] List.map_filter_def pano_arrow_None o_def)
    have each: "index (onClick_target (the (pano_arrow s a p t))) = t
        \<and> yawDeg (the (pano_arrow s a p t)) =
            radToDeg (atan2 (vz (the (hotspotPositions s t)) - vz p)
                            (vx (the (hotspotPositions s t)) - vx p))
              - (case PANO_NORTH_OFFSET (index a) of None \<Rightarrow> 0 | Some v \<Rightarrow> v)
        \<and> group_position (the (pano_arrow s a p t)) =
            Vec3 (25 * cos (degToRad (yawDeg (the (pano_arrow s a p t))))) (- 12)
              (25 * sin (degToRad (yawDeg (the (pano_arrow s a p t)))))"
      if "?ok t" for t
    proof -
      from that obtain tp q where tp: "getPanoByNumber (panoGraph s) t = Some tp"
        and q: "hotspotPositions s t = Some q" by auto
      from tp have "index tp = t" by (simp add: getPanoByNumber_index)
      then show ?thesis
        by (simp add: pano_arrow_Some [OF tp q] q createFloorCircle_def Let_def)
    qed
    have 1: "map (\<lambda>m. index (onClick_target m)) (panoArrows (createPanoArrows s)) = filter ?ok ?conns"
      unfolding arrows map_map o_def by (rule map_idI) (simp add: each)
    have 2: "map yawDeg (panoArrows (createPanoArrows s)) =
           map (\<lambda>t. radToDeg (atan2 (vz (the (hotspotPositions s t)) - vz p)
                                     (vx (the (hotspotPositions s t)) - vx p))
                  - (case PANO_NORTH_OFFSET (index a) of None \<Rightarrow> 0 | Some v \<Rightarrow> v))
             (filter ?ok ?conns)"
      unfolding arrows map_map o_def by (rule map_cong) (simp_all add: each)
    have 3: "\<forall>m \<in> set (panoArrows (createPanoArrows s)).
             group_position m =
               Vec3 (25 * cos (degToRad (yawDeg m))) (- 12) (25 * sin (degToRad (yawDeg m)))"
      unfolding arrows using each by auto
    from 1 2 3 show ?thesis by blast
  qed
  have ex1: "radToDeg (atan2 (0 - 0) (1 - 0)) - 0 = 0" by (simp add: atan2_east)
  have ex2: "radToDeg (atan2 (1 - 0) (0 - 0)) - 0 = 90" by (simp add: atan2_north)
  have node: "pano_at (panoGraph (bearing_state h)) (currentPanoIndex (bearing_state h)) =
      Some \<lparr>index = 4, file_name = ''pano_4.jpg'', arrayIdx = 1, prev = Some 0, nxt = Some 2\<rparr>" for h
    by (simp add: bearing_state_fields bearing_graph pano_at_def)
  have ex3: "map yawDeg (panoArrows (createPanoArrows (bearing_state bearing_positions))) = [0, 90]"
    by (simp add: createPanoArrows_arrows [OF node] bearing_state_fields bearing_positions_def
        PANO_CONNECTIONS_def PANO_NORTH_OFFSET_def List.map_filter_def pano_arrow_def
        getPanoByNumber_def bearing_graph createFloorCircle_def Let_def atan2_east atan2_north)
  have ex4: "map yawDeg (panoArrows (createPanoArrows (bearing_state bearing_positions_without_5))) = [0]"
    by (simp add: createPanoArrows_arrows [OF node] bearing_state_fields
        bearing_positions_without_5_def
        PANO_CONNECTIONS_def PANO_NORTH_OFFSET_def List.map_filter_def pano_arrow_def
        getPanoByNumber_def bearing_graph createFloorCircle_def Let_def atan2_east atan2_north)
  show ?thesis unfolding Let_def using general ex1 ex2 ex3 ex4 by auto
qed

text \<open>Room 4 with its neighbours 3 and 5, and with the position of room 5 missing.\<close>

theorem floor_marker_bearings_witness:
  "pano_at (panoGraph (bearing_state bearing_positions))
      (currentPanoIndex (bearing_state bearing_positions))
     = Some \<lparr>index = 4, file_name = ''pano_4.jpg'', arrayIdx = 1, prev = Some 0, nxt = Some 2\<rparr>
   \<and> hotspotPositions (bearing_state bearing_positions) 4 = Some (Vec3 0 0 0)
   \<and> map (\<lambda>m. index (onClick_target m))
        (panoArrows (createPanoArrows (bearing_state bearing_positions))) = [3, 5]
   \<and> map yawDeg (panoArrows (createPanoArrows (bearing_state bearing_positions))) = [0, 90]
   \<and> map (\<lambda>m. index (onClick_target m))
        (panoArrows (createPanoArrows (bearing_state bearing_positions_without_5))) = [3]
   \<and> map yawDeg (panoArrows (createPanoArrows (bearing_state bearing_positions_without_5))) = [0]"
proof -
  let ?a = "\<lparr>index = 4, file_name = ''pano_4.jpg'', arrayIdx = 1, prev = Some 0, nxt = Some 2\<rparr>"
  have node: "pano_at (panoGraph (bearing_state h)) (currentPanoIndex (bearing_state h)) = Some ?a" for h
    by (simp add: bearing_state_fields bearing_graph pano_at_def)
  have p: "hotspotPositions (bearing_state bearing_positions) (index ?a) = Some (Vec3 0 0 0)"
    "hotspotPositions (bearing_state bearing_positions_without_5) (index ?a) = Some (Vec3 0 0 0)"
    by (simp_all add: bearing_state_fields bearing_positions_def bearing_positions_without_5_def)
  note t = floor_marker_bearings [where s = "bearing_state bearing_positions" and a = ?a
      and p = "Vec3 0 0 0", unfolded Let_def]
  note u = floor_marker_bearings [where s = "bearing_state bearing_positions_without_5" and a = ?a
      and p = "Vec3 0 0 0", unfolded Let_def]
  from t node p have "map (\<lambda>m. index (onClick_target m))
        (panoArrows (createPanoArrows (bearing_state bearing_positions))) =
      filter (\<lambda>t. getPanoByNumber (panoGraph (bearing_state bearing_positions)) t \<noteq> None
                \<and> hotspotPositions (bearing_state bearing_positions) t \<noteq> None)
        (case PANO_CONNECTIONS (index ?a) of None \<Rightarrow> [] | Some c \<Rightarrow> c)"
    by blast
  then have 1: "map (\<lambda>m. index (onClick_target m))
        (panoArrows (createPanoArrows (bearing_state bearing_positions))) = [3, 5]"
    by (simp add: PANO_CONNECTIONS_def bearing_state_fields bearing_graph getPanoByNumber_def
        bearing_positions_def)
  from u node p have "map (\<lambda>m. index (onClick_target m))
        (panoArrows (createPanoArrows (bearing_state bearing_positions_without_5))) =
      filter (\<lambda>t. getPanoByNumber (panoGraph (bearing_state bearing_positions_without_5)) t \<noteq> None
                \<and> hotspotPositions (bearing_state bearing_positions_without_5) t \<noteq> None)
        (case PANO_CONNECTIONS (index ?a) of None \<Rightarrow> [] | Some c \<Rightarrow> c)"
    by blast
  then have 2: "map (\<lambda>m. index (onClick_target m))
        (panoArrows (createPanoArrows (bearing_state bearing_positions_without_5))) = [3]"
    by (simp add: PANO_CONNECTIONS_def bearing_state_fields bearing_graph getPanoByNumber_def
        bearing_positions_without_5_def)
  from t have 3: "map yawDeg (panoArrows (createPanoArrows (bearing_state bearing_positions))) = [0, 90]"
    by blast
  from t have 4: "map yawDeg (panoArrows (createPanoArrows (bearing_state bearing_positions_without_5))) = [0]"
    by blast
  from node [of bearing_positions] p(1) 1 2 3 4 show ?thesis by simp
qed

end
